theory Spec2Isabelle
  imports Main "HOL-Library.Product_Lexorder" "HOL-Library.Multiset"
begin

section \<open>Data model of order_execution.py\<close>

text \<open>
  The orders of \<^verbatim>\<open>OrderBook\<close> are Python dicts with the keys \<^verbatim>\<open>account_id\<close>,
  \<^verbatim>\<open>ticker\<close>, \<^verbatim>\<open>action\<close>, \<^verbatim>\<open>order_type\<close>, \<^verbatim>\<open>quantity\<close>, \<^verbatim>\<open>price\<close> and
  \<^verbatim>\<open>timestamp\<close>. The action and the order type stay strings, as in the source: the code
  compares them with string literals and an unknown string falls through its
  \<^verbatim>\<open>if\<close>/\<^verbatim>\<open>elif\<close> chains. Quantities and prices are Python's unbounded integers
  (floating-point prices are outside this model); \<^verbatim>\<open>price\<close> is \<open>None\<close> where the dict
  holds Python's \<^verbatim>\<open>None\<close>. The timestamp is a type parameter: a \<open>datetime\<close> in memory,
  a string in the JSON snapshot.

  An order is a value here. Two entries of a deque are two objects, also when their
  fields agree; one dict object stored twice in the book is not modelled.
\<close>

datatype error = TypeError | ValueError

text \<open>A naive \<^verbatim>\<open>datetime\<close>: year, month, day, hour, minute, second, microsecond.
  Python compares two of them field by field in this order, which is the lexicographic
  order of the tuple.\<close>

type_synonym datetime = "nat \<times> nat \<times> nat \<times> nat \<times> nat \<times> nat \<times> nat"

record 'ts order =
  account_id :: string
  ticker :: string
  action :: string
  order_type :: string
  quantity :: int
  price :: "int option"
  timestamp :: 'ts

text \<open>Modelled from the spec: the account collaborator (\<^verbatim>\<open>AccountManager\<close> is not in the
  source file). \<^verbatim>\<open>get_account(id)\<close> yields a balance and a mapping from ticker to
  held quantity; \<^verbatim>\<open>update_account(id, account)\<close> stores the full account. The store is a
  function from account id to account; \<^verbatim>\<open>get_account\<close> is application and
  \<^verbatim>\<open>update_account\<close> is function update.\<close>

record account =
  balance :: int
  positions :: "string \<rightharpoonup> int"

type_synonym account_manager = "string \<Rightarrow> account"

text \<open>The dict written by \<^verbatim>\<open>match_orders\<close> for each execution. Its \<^verbatim>\<open>timestamp\<close>
  entry is the wall clock at the time of the trade and is left out.\<close>

record trade =
  trade_ticker :: string
  trade_price :: int
  trade_quantity :: int
  buy_account_id :: string
  sell_account_id :: string

text \<open>A Python dict whose keys are enumerated (\<^verbatim>\<open>items()\<close>) is an association list
  in insertion order: \<open>dict_get\<close> is \<^verbatim>\<open>d.get(k)\<close>, \<open>dict_set\<close> is \<^verbatim>\<open>d[k] = v\<close>,
  which keeps the position of a key that is present and appends a new key.\<close>

type_synonym ('k, 'v) dict = "('k \<times> 'v) list"

definition dict_get :: "('k, 'v) dict \<Rightarrow> 'k \<Rightarrow> 'v option" where
  "dict_get d k = map_of d k"

fun dict_set :: "('k, 'v) dict \<Rightarrow> 'k \<Rightarrow> 'v \<Rightarrow> ('k, 'v) dict" where
  "dict_set [] k v = [(k, v)]"
| "dict_set ((k', v') # d) k v = (if k' = k then (k, v) # d else (k', v') # dict_set d k v)"

text \<open>\<^verbatim>\<open>d.get(k, deque())\<close> and \<^verbatim>\<open>positions.get(ticker, 0)\<close>.\<close>

definition orders_of :: "(string, 'a list) dict \<Rightarrow> string \<Rightarrow> 'a list" where
  "orders_of d k = (case dict_get d k of None \<Rightarrow> [] | Some xs \<Rightarrow> xs)"

definition position_of :: "(string \<rightharpoonup> int) \<Rightarrow> string \<Rightarrow> int" where
  "position_of ps k = (case ps k of None \<Rightarrow> 0 | Some q \<Rightarrow> q)"

text \<open>The JSON document of the unmatched-orders file: an object with the optional keys
  \<^verbatim>\<open>buy_orders\<close> and \<^verbatim>\<open>sell_orders\<close>, each an object from ticker to a list of orders
  whose timestamp is a string.\<close>

record snapshot =
  snap_buy_orders :: "(string, string order list) dict option"
  snap_sell_orders :: "(string, string order list) dict option"

text \<open>The fields of \<^verbatim>\<open>OrderBook\<close>. The two files are part of the state: the
  unmatched-orders file is absent (\<open>None\<close>) or holds a snapshot; the executed-trades
  file is absent or unreadable (\<open>None\<close>) or holds the list of trades.\<close>

record order_book =
  buy_orders :: "(string, datetime order list) dict"
  sell_orders :: "(string, datetime order list) dict"
  last_trade_price :: "string \<rightharpoonup> int"
  unmatched_orders_file :: "snapshot option"
  executed_trades_file :: "trade list option"

section \<open>The timestamp codec\<close>

text \<open>\<^verbatim>\<open>datetime.isoformat()\<close> of a naive datetime writes
  \<^verbatim>\<open>YYYY-MM-DDTHH:MM:SS\<close>, followed by \<^verbatim>\<open>.ffffff\<close> when the microsecond is not zero,
  every field zero-padded to its width.\<close>

definition digit_char :: "nat \<Rightarrow> char" where
  "digit_char d = char_of (48 + d)"

fun zero_padded :: "nat \<Rightarrow> nat \<Rightarrow> string" where
  "zero_padded 0 n = []"
| "zero_padded (Suc w) n = zero_padded w (n div 10) @ [digit_char (n mod 10)]"

fun isoformat :: "datetime \<Rightarrow> string" where
  "isoformat (y, mo, d, h, mi, s, us) =
     zero_padded 4 y @ ''-'' @ zero_padded 2 mo @ ''-'' @ zero_padded 2 d @ ''T'' @
     zero_padded 2 h @ '':'' @ zero_padded 2 mi @ '':'' @ zero_padded 2 s @
     (if us = 0 then [] else ''.'' @ zero_padded 6 us)"

text \<open>\<^verbatim>\<open>datetime.fromisoformat\<close> on the two layouts that \<^verbatim>\<open>isoformat()\<close> writes for
  a naive datetime; any other string, and any field out of the range of a
  \<^verbatim>\<open>datetime\<close>, is a \<^verbatim>\<open>ValueError\<close>. (Python accepts further ISO-8601 layouts, which
  \<^verbatim>\<open>save_unmatched_orders\<close> never writes.)\<close>

definition digit_value :: "char \<Rightarrow> nat option" where
  "digit_value c =
     (let n = (of_char c :: nat) in if 48 \<le> n \<and> n \<le> 57 then Some (n - 48) else None)"

fun decimal_from :: "nat \<Rightarrow> string \<Rightarrow> nat option" where
  "decimal_from acc [] = Some acc"
| "decimal_from acc (c # cs) =
     (case digit_value c of None \<Rightarrow> None | Some d \<Rightarrow> decimal_from (10 * acc + d) cs)"

definition decimal :: "string \<Rightarrow> nat option" where
  "decimal s = (if s = [] then None else decimal_from 0 s)"

definition is_leap :: "nat \<Rightarrow> bool" where
  "is_leap y = (y mod 4 = 0 \<and> (y mod 100 \<noteq> 0 \<or> y mod 400 = 0))"

definition days_in_month :: "nat \<Rightarrow> nat \<Rightarrow> nat" where
  "days_in_month y mo =
     (if mo = 2 then (if is_leap y then 29 else 28)
      else if mo \<in> {4, 6, 9, 11} then 30 else 31)"

fun valid_datetime :: "datetime \<Rightarrow> bool" where
  "valid_datetime (y, mo, d, h, mi, s, us) =
     (1 \<le> y \<and> y \<le> 9999 \<and> 1 \<le> mo \<and> mo \<le> 12 \<and> 1 \<le> d \<and> d \<le> days_in_month y mo \<and>
      h < 24 \<and> mi < 60 \<and> s < 60 \<and> us < 1000000)"

definition fromisoformat :: "string \<Rightarrow> error + datetime" where
  "fromisoformat str =
     (if (length str = 19 \<or> length str = 26 \<and> str ! 19 = CHR ''.'') \<and>
         str ! 4 = CHR ''-'' \<and> str ! 7 = CHR ''-'' \<and> str ! 10 = CHR ''T'' \<and>
         str ! 13 = CHR '':'' \<and> str ! 16 = CHR '':''
      then
        (case (decimal (take 4 str), decimal (take 2 (drop 5 str)),
               decimal (take 2 (drop 8 str)), decimal (take 2 (drop 11 str)),
               decimal (take 2 (drop 14 str)), decimal (take 2 (drop 17 str)),
               if length str = 19 then Some 0 else decimal (drop 20 str)) of
           (Some y, Some mo, Some d, Some h, Some mi, Some s, Some us) \<Rightarrow>
             if valid_datetime (y, mo, d, h, mi, s, us)
             then Inr (y, mo, d, h, mi, s, us) else Inl ValueError
         | _ \<Rightarrow> Inl ValueError)
      else Inl ValueError)"

section \<open>Persistence\<close>

text \<open>\<^verbatim>\<open>serialize_order\<close> copies the order and replaces its timestamp by the ISO
  string.\<close>

definition serialize_order :: "datetime order \<Rightarrow> string order" where
  "serialize_order order =
     \<lparr>account_id = account_id order, ticker = ticker order, action = action order,
      order_type = order_type order, quantity = quantity order, price = price order,
      timestamp = isoformat (timestamp order)\<rparr>"

definition save_unmatched_orders :: "order_book \<Rightarrow> order_book" where
  "save_unmatched_orders self =
     self\<lparr>unmatched_orders_file := Some
       \<lparr>snap_buy_orders = Some (map (\<lambda>(tk, orders). (tk, map serialize_order orders)) (buy_orders self)),
        snap_sell_orders = Some (map (\<lambda>(tk, orders). (tk, map serialize_order orders)) (sell_orders self))\<rparr>\<rparr>"

text \<open>The inner loop of \<^verbatim>\<open>load_unmatched_orders\<close>: each order's timestamp string is
  parsed and the order appended; a \<^verbatim>\<open>ValueError\<close> of \<^verbatim>\<open>fromisoformat\<close> leaves the
  loop.\<close>

fun load_orders :: "string order list \<Rightarrow> error + datetime order list" where
  "load_orders [] = Inr []"
| "load_orders (order # orders) =
     (case fromisoformat (timestamp order) of
        Inl e \<Rightarrow> Inl e
      | Inr ts \<Rightarrow>
          (case load_orders orders of
             Inl e \<Rightarrow> Inl e
           | Inr rest \<Rightarrow>
               Inr (\<lparr>account_id = account_id order, ticker = ticker order, action = action order,
                     order_type = order_type order, quantity = quantity order,
                     price = price order, timestamp = ts\<rparr> # rest)))"

text \<open>The outer loop over \<^verbatim>\<open>items()\<close> of one side, storing each ticker's deque into
  the dict built so far.\<close>

fun load_side ::
  "(string, string order list) dict \<Rightarrow> (string, datetime order list) dict \<Rightarrow>
   error + (string, datetime order list) dict" where
  "load_side [] acc = Inr acc"
| "load_side ((tk, orders) # items) acc =
     (case load_orders orders of
        Inl e \<Rightarrow> Inl e
      | Inr loaded \<Rightarrow> load_side items (dict_set acc tk loaded))"

definition load_unmatched_orders :: "order_book \<Rightarrow> error + order_book" where
  "load_unmatched_orders self =
     (case unmatched_orders_file self of
        None \<Rightarrow> Inr (self\<lparr>buy_orders := [], sell_orders := []\<rparr>)
      | Some data \<Rightarrow>
          (case load_side (case snap_buy_orders data of None \<Rightarrow> [] | Some d \<Rightarrow> d) [] of
             Inl e \<Rightarrow> Inl e
           | Inr buys \<Rightarrow>
               (case load_side (case snap_sell_orders data of None \<Rightarrow> [] | Some d \<Rightarrow> d) [] of
                  Inl e \<Rightarrow> Inl e
                | Inr sells \<Rightarrow> Inr (self\<lparr>buy_orders := buys, sell_orders := sells\<rparr>))))"

text \<open>\<^verbatim>\<open>save_executed_trade\<close>: a missing or unreadable file counts as the empty list;
  the trade is appended and the file rewritten.\<close>

definition save_executed_trade :: "order_book \<Rightarrow> trade \<Rightarrow> order_book" where
  "save_executed_trade self trade_info =
     self\<lparr>executed_trades_file :=
       Some ((case executed_trades_file self of None \<Rightarrow> [] | Some ts \<Rightarrow> ts) @ [trade_info])\<rparr>"

section \<open>The price oracle\<close>

text \<open>Python's \<^verbatim>\<open>min\<close> and \<^verbatim>\<open>max\<close> over the prices of the limit orders. A price
  that is \<^verbatim>\<open>None\<close> cannot be compared: with two or more prices the comparison raises
  \<^verbatim>\<open>TypeError\<close>; a single price is returned as it is, without any comparison.\<close>

fun py_min_from :: "int option \<Rightarrow> int option list \<Rightarrow> error + int option" where
  "py_min_from cur [] = Inr cur"
| "py_min_from cur (x # xs) =
     (case (x, cur) of
        (Some a, Some c) \<Rightarrow> py_min_from (if a < c then Some a else Some c) xs
      | _ \<Rightarrow> Inl TypeError)"

fun py_max_from :: "int option \<Rightarrow> int option list \<Rightarrow> error + int option" where
  "py_max_from cur [] = Inr cur"
| "py_max_from cur (x # xs) =
     (case (x, cur) of
        (Some a, Some c) \<Rightarrow> py_max_from (if a > c then Some a else Some c) xs
      | _ \<Rightarrow> Inl TypeError)"

text \<open>\<^verbatim>\<open>stock_info.get_initial_price\<close> is an external collaborator and is a parameter.
  The result is \<open>Inr None\<close> only when the single limit order found has the price
  \<^verbatim>\<open>None\<close>.\<close>

definition get_best_price ::
  "(string \<Rightarrow> int) \<Rightarrow> order_book \<Rightarrow> string \<Rightarrow> string \<Rightarrow> error + int option" where
  "get_best_price get_initial_price self act tk =
     (let fallback = Inr (Some (case last_trade_price self tk of
                                  None \<Rightarrow> get_initial_price tk | Some p \<Rightarrow> p))
      in
      if act = ''buy'' then
        (case dict_get (sell_orders self) tk of
           None \<Rightarrow> fallback
         | Some orders \<Rightarrow>
             (case map price (filter (\<lambda>x. order_type x = ''limit'') orders) of
                [] \<Rightarrow> fallback
              | p # ps \<Rightarrow> py_min_from p ps))
      else if act = ''sell'' then
        (case dict_get (buy_orders self) tk of
           None \<Rightarrow> fallback
         | Some orders \<Rightarrow>
             (case map price (filter (\<lambda>x. order_type x = ''limit'') orders) of
                [] \<Rightarrow> fallback
              | p # ps \<Rightarrow> py_max_from p ps))
      else fallback)"

section \<open>Admission of orders\<close>

text \<open>\<^verbatim>\<open>add_order\<close> returns its boolean result and the book. The account manager is
  only read.\<close>

definition add_order :: "order_book \<Rightarrow> account_manager \<Rightarrow> datetime order \<Rightarrow> bool \<times> order_book" where
  "add_order self account_manager order =
     (let tk = ticker order;
          account = account_manager (account_id order)
      in
      if quantity order \<le> 0 then (False, self)
      else if order_type order \<notin> {''market'', ''limit''} then (False, self)
      else if order_type order = ''limit'' \<and>
              (case price order of None \<Rightarrow> True | Some p \<Rightarrow> p \<le> 0) then (False, self)
      else if action order = ''sell'' \<and> position_of (positions account) tk < quantity order
        then (False, self)
      else
        (let self' =
           (if action order = ''buy'' then
              self\<lparr>buy_orders := dict_set (buy_orders self) tk (orders_of (buy_orders self) tk @ [order])\<rparr>
            else if action order = ''sell'' then
              self\<lparr>sell_orders := dict_set (sell_orders self) tk (orders_of (sell_orders self) tk @ [order])\<rparr>
            else self)
         in (True, save_unmatched_orders self')))"

section \<open>The matching engine\<close>

subsection \<open>Sorting\<close>

text \<open>The sort keys of \<^verbatim>\<open>match_orders\<close> are tuples
  \<^verbatim>\<open>(order_type != 'market', number, timestamp)\<close>, where the number of a buy order may be
  \<^verbatim>\<open>float('inf')\<close>. Python compares tuples by the first component in which they
  differ. A price that is \<^verbatim>\<open>None\<close> or \<^verbatim>\<open>0\<close> is falsy.\<close>

datatype key_number = Finite int | Infinity

fun number_lt :: "key_number \<Rightarrow> key_number \<Rightarrow> bool" where
  "number_lt (Finite a) (Finite b) = (a < b)"
| "number_lt (Finite a) Infinity = True"
| "number_lt Infinity _ = False"

type_synonym sort_key = "bool \<times> key_number \<times> datetime"

fun key_lt :: "sort_key \<Rightarrow> sort_key \<Rightarrow> bool" where
  "key_lt (a1, a2, a3) (b1, b2, b3) =
     (if a1 \<noteq> b1 then a1 < b1 else if a2 \<noteq> b2 then number_lt a2 b2 else a3 < b3)"

definition buy_key :: "datetime order \<Rightarrow> sort_key" where
  "buy_key x =
     (order_type x \<noteq> ''market'',
      (case price x of None \<Rightarrow> Infinity | Some p \<Rightarrow> if p \<noteq> 0 then Finite (- p) else Infinity),
      timestamp x)"

definition sell_key :: "datetime order \<Rightarrow> sort_key" where
  "sell_key x =
     (order_type x \<noteq> ''market'',
      (case price x of None \<Rightarrow> Finite 0 | Some p \<Rightarrow> if p \<noteq> 0 then Finite p else Finite 0),
      timestamp x)"

text \<open>\<^verbatim>\<open>sorted(xs, key=k)\<close> is stable: an element goes in front of the first element
  of the sorted rest that is not smaller than it.\<close>

fun insert_sorted :: "('a \<Rightarrow> sort_key) \<Rightarrow> 'a \<Rightarrow> 'a list \<Rightarrow> 'a list" where
  "insert_sorted k x [] = [x]"
| "insert_sorted k x (y # ys) =
     (if key_lt (k y) (k x) then y # insert_sorted k x ys else x # y # ys)"

definition py_sorted :: "('a \<Rightarrow> sort_key) \<Rightarrow> 'a list \<Rightarrow> 'a list" where
  "py_sorted k xs = foldr (insert_sorted k) xs []"

subsection \<open>One pair\<close>

text \<open>The state of the matching loop: the two local deques, the order book (whose
  last-trade-price table and executed-trades file the loop writes) and the account
  manager.\<close>

record matching =
  buy_deque :: "datetime order list"
  sell_deque :: "datetime order list"
  book :: order_book
  accounts :: account_manager

text \<open>Lines 140 to 159: the price of a pair. \<open>Skip\<close> is the \<^verbatim>\<open>continue\<close> of the
  source. \<open>Price None\<close> is a limit order's price \<^verbatim>\<open>None\<close> taken as the execution
  price. Comparing a price \<^verbatim>\<open>None\<close> raises \<^verbatim>\<open>TypeError\<close>.\<close>

datatype pricing = Skip | Price "int option" | Raise error

definition execution_price ::
  "(string \<rightharpoonup> int) \<Rightarrow> string \<Rightarrow> datetime order \<Rightarrow> datetime order \<Rightarrow> pricing" where
  "execution_price ltp tk buy_order sell_order =
     (if order_type buy_order = ''market'' \<and> order_type sell_order = ''market'' then
        (case ltp tk of None \<Rightarrow> Skip | Some p \<Rightarrow> Price (Some p))
      else if order_type buy_order = ''market'' \<and> order_type sell_order = ''limit'' then
        Price (price sell_order)
      else if order_type buy_order = ''limit'' \<and> order_type sell_order = ''market'' then
        Price (price buy_order)
      else if order_type buy_order = ''limit'' \<and> order_type sell_order = ''limit'' then
        (case (price buy_order, price sell_order) of
           (Some pb, Some ps) \<Rightarrow> if pb \<ge> ps then Price (Some ps) else Skip
         | _ \<Rightarrow> Raise TypeError)
      else Skip)"

text \<open>Lines 161 to 215: the settlement of the pair at the positions \<open>i\<close> and \<open>j\<close> of
  the deques, at the price \<open>p\<close>. The order objects are mutated in place, which is the
  update of the deque at that position; \<^verbatim>\<open>deque.remove\<close> removes the first entry equal to
  its argument.\<close>

definition settle ::
  "string \<Rightarrow> matching \<Rightarrow> nat \<Rightarrow> datetime order \<Rightarrow> nat \<Rightarrow> datetime order \<Rightarrow> int \<Rightarrow> matching" where
  "settle tk st i buy_order j sell_order p =
     (let exec_quantity = min (quantity buy_order) (quantity sell_order);
          buyer_account = accounts st (account_id buy_order);
          total_cost = exec_quantity * p
      in
      if balance buyer_account \<ge> total_cost then
        (let buyer' = buyer_account
               \<lparr>balance := balance buyer_account - total_cost,
                positions := (positions buyer_account)
                  (tk \<mapsto> position_of (positions buyer_account) tk + exec_quantity)\<rparr>;
             accounts1 = (accounts st)(account_id buy_order := buyer');
             seller_account = accounts1 (account_id sell_order);
             remaining = position_of (positions seller_account) tk - exec_quantity;
             seller' = seller_account
               \<lparr>balance := balance seller_account + total_cost,
                positions := (if remaining = 0 then (positions seller_account)(tk := None)
                              else (positions seller_account)(tk \<mapsto> remaining))\<rparr>;
             accounts2 = accounts1(account_id sell_order := seller');
             buy_order' = buy_order\<lparr>quantity := quantity buy_order - exec_quantity\<rparr>;
             sell_order' = sell_order\<lparr>quantity := quantity sell_order - exec_quantity\<rparr>;
             buys1 = (buy_deque st)[i := buy_order'];
             sells1 = (sell_deque st)[j := sell_order'];
             trade_info = \<lparr>trade_ticker = tk, trade_price = p, trade_quantity = exec_quantity,
                           buy_account_id = account_id buy_order,
                           sell_account_id = account_id sell_order\<rparr>;
             book' = save_executed_trade
                       ((book st)\<lparr>last_trade_price := (last_trade_price (book st))(tk \<mapsto> p)\<rparr>)
                       trade_info
         in \<lparr>buy_deque = (if quantity buy_order' = 0 then remove1 buy_order' buys1 else buys1),
             sell_deque = (if quantity sell_order' = 0 then remove1 sell_order' sells1 else sells1),
             book = book', accounts = accounts2\<rparr>)
      else st\<lparr>buy_deque := remove1 buy_order (buy_deque st)\<rparr>)"

text \<open>The body of the inner loop for one pair. \<open>Inr None\<close>: the pair is passed over
  and \<^verbatim>\<open>matched\<close> stays false. \<open>Inr (Some st')\<close>: \<^verbatim>\<open>matched = True\<close> and both
  \<^verbatim>\<open>for\<close> loops are left. \<open>Inl (e, st)\<close>: the exception \<open>e\<close> leaves
  \<^verbatim>\<open>match_orders\<close> in the loop state \<open>st\<close>.\<close>

type_synonym 'a raising = "(error \<times> matching) + 'a"

definition match_pair ::
  "string \<Rightarrow> matching \<Rightarrow> nat \<Rightarrow> datetime order \<Rightarrow> nat \<Rightarrow> datetime order \<Rightarrow> matching option raising" where
  "match_pair tk st i buy_order j sell_order =
     (if account_id buy_order = account_id sell_order then Inr None
      else
        (case execution_price (last_trade_price (book st)) tk buy_order sell_order of
           Skip \<Rightarrow> Inr None
         | Raise e \<Rightarrow> Inl (e, st)
         | Price None \<Rightarrow> Inl (TypeError, st)
         | Price (Some p) \<Rightarrow> Inr (Some (settle tk st i buy_order j sell_order p))))"

subsection \<open>The loops\<close>

text \<open>\<^verbatim>\<open>for sell_order in list(sell_orders)\<close> and \<^verbatim>\<open>for buy_order in list(buy_orders)\<close>:
  the scans run over copies of the deques, \<open>j\<close> and \<open>i\<close> being the position of the
  head of the part still to scan.\<close>

fun scan_sells ::
  "string \<Rightarrow> matching \<Rightarrow> nat \<Rightarrow> datetime order \<Rightarrow> nat \<Rightarrow> datetime order list \<Rightarrow> matching option raising" where
  "scan_sells tk st i buy_order j [] = Inr None"
| "scan_sells tk st i buy_order j (sell_order # rest) =
     (case match_pair tk st i buy_order j sell_order of
        Inr None \<Rightarrow> scan_sells tk st i buy_order (Suc j) rest
      | r \<Rightarrow> r)"

fun scan_buys ::
  "string \<Rightarrow> matching \<Rightarrow> nat \<Rightarrow> datetime order list \<Rightarrow> matching option raising" where
  "scan_buys tk st i [] = Inr None"
| "scan_buys tk st i (buy_order # rest) =
     (case scan_sells tk st i buy_order 0 (sell_deque st) of
        Inr None \<Rightarrow> scan_buys tk st (Suc i) rest
      | r \<Rightarrow> r)"

text \<open>One pass of the \<^verbatim>\<open>while\<close> body.\<close>

definition match_pass :: "string \<Rightarrow> matching \<Rightarrow> matching option raising" where
  "match_pass tk st = scan_buys tk st 0 (buy_deque st)"

subsection \<open>What a pass does\<close>

text \<open>A pass that matched has settled one pair of different accounts whose price was
  determined; a pass that raised has changed nothing; a pass that did not match has found
  no pair of different accounts with a price.\<close>

lemma match_pair_cases:
  "match_pair tk st i b j s = Inr (Some st') \<longleftrightarrow>
     (account_id b \<noteq> account_id s \<and>
      (\<exists>p. execution_price (last_trade_price (book st)) tk b s = Price (Some p) \<and>
           st' = settle tk st i b j s p))"
  "match_pair tk st i b j s = Inr None \<longleftrightarrow>
     (account_id b = account_id s \<or> execution_price (last_trade_price (book st)) tk b s = Skip)"
  "match_pair tk st i b j s = Inl (e, st') \<Longrightarrow> st' = st"
  by (auto simp: match_pair_def split: pricing.splits option.splits if_splits)

lemma scan_sells_matched:
  "scan_sells tk st i b j rest = Inr (Some st') \<Longrightarrow>
   \<exists>k p. k < length rest \<and> account_id b \<noteq> account_id (rest ! k) \<and>
         execution_price (last_trade_price (book st)) tk b (rest ! k) = Price (Some p) \<and>
         st' = settle tk st i b (j + k) (rest ! k) p"
proof (induction rest arbitrary: j)
  case Nil
  then show ?case by simp
next
  case (Cons s rest)
  show ?case
  proof (cases "match_pair tk st i b j s = Inr None")
    case True
    with Cons.prems have "scan_sells tk st i b (Suc j) rest = Inr (Some st')" by simp
    from Cons.IH [OF this] obtain k p where
      "k < length rest" "account_id b \<noteq> account_id (rest ! k)"
      "execution_price (last_trade_price (book st)) tk b (rest ! k) = Price (Some p)"
      "st' = settle tk st i b (Suc j + k) (rest ! k) p" by blast
    then have "Suc k < length (s # rest) \<and> account_id b \<noteq> account_id ((s # rest) ! Suc k) \<and>
        execution_price (last_trade_price (book st)) tk b ((s # rest) ! Suc k) = Price (Some p) \<and>
        st' = settle tk st i b (j + Suc k) ((s # rest) ! Suc k) p" by simp
    then show ?thesis by blast
  next
    case False
    with Cons.prems have "match_pair tk st i b j s = Inr (Some st')"
      by (auto split: sum.splits option.splits)
    then obtain p where "account_id b \<noteq> account_id s"
      "execution_price (last_trade_price (book st)) tk b s = Price (Some p)"
      "st' = settle tk st i b j s p" by (auto simp: match_pair_cases(1))
    then have "0 < length (s # rest) \<and> account_id b \<noteq> account_id ((s # rest) ! 0) \<and>
        execution_price (last_trade_price (book st)) tk b ((s # rest) ! 0) = Price (Some p) \<and>
        st' = settle tk st i b (j + 0) ((s # rest) ! 0) p" by simp
    then show ?thesis by blast
  qed
qed

lemma scan_buys_matched:
  "scan_buys tk st i rest = Inr (Some st') \<Longrightarrow>
   \<exists>k j p. k < length rest \<and> j < length (sell_deque st) \<and>
         account_id (rest ! k) \<noteq> account_id (sell_deque st ! j) \<and>
         execution_price (last_trade_price (book st)) tk (rest ! k) (sell_deque st ! j) = Price (Some p) \<and>
         st' = settle tk st (i + k) (rest ! k) j (sell_deque st ! j) p"
proof (induction rest arbitrary: i)
  case Nil
  then show ?case by simp
next
  case (Cons b rest)
  show ?case
  proof (cases "scan_sells tk st i b 0 (sell_deque st) = Inr None")
    case True
    with Cons.prems have "scan_buys tk st (Suc i) rest = Inr (Some st')" by simp
    from Cons.IH [OF this] obtain k j p where
      "k < length rest" "j < length (sell_deque st)"
      "account_id (rest ! k) \<noteq> account_id (sell_deque st ! j)"
      "execution_price (last_trade_price (book st)) tk (rest ! k) (sell_deque st ! j) = Price (Some p)"
      "st' = settle tk st (Suc i + k) (rest ! k) j (sell_deque st ! j) p" by blast
    then have "Suc k < length (b # rest) \<and> j < length (sell_deque st) \<and>
        account_id ((b # rest) ! Suc k) \<noteq> account_id (sell_deque st ! j) \<and>
        execution_price (last_trade_price (book st)) tk ((b # rest) ! Suc k) (sell_deque st ! j) = Price (Some p) \<and>
        st' = settle tk st (i + Suc k) ((b # rest) ! Suc k) j (sell_deque st ! j) p" by simp
    then show ?thesis by blast
  next
    case False
    with Cons.prems have "scan_sells tk st i b 0 (sell_deque st) = Inr (Some st')"
      by (auto split: sum.splits option.splits)
    from scan_sells_matched [OF this] obtain j p where
      "j < length (sell_deque st)" "account_id b \<noteq> account_id (sell_deque st ! j)"
      "execution_price (last_trade_price (book st)) tk b (sell_deque st ! j) = Price (Some p)"
      "st' = settle tk st i b j (sell_deque st ! j) p" by auto
    then have "0 < length (b # rest) \<and> j < length (sell_deque st) \<and>
        account_id ((b # rest) ! 0) \<noteq> account_id (sell_deque st ! j) \<and>
        execution_price (last_trade_price (book st)) tk ((b # rest) ! 0) (sell_deque st ! j) = Price (Some p) \<and>
        st' = settle tk st (i + 0) ((b # rest) ! 0) j (sell_deque st ! j) p" by simp
    then show ?thesis by blast
  qed
qed

lemma match_pass_matched:
  assumes "match_pass tk st = Inr (Some st')"
  obtains i j p where "i < length (buy_deque st)" "j < length (sell_deque st)"
    "account_id (buy_deque st ! i) \<noteq> account_id (sell_deque st ! j)"
    "execution_price (last_trade_price (book st)) tk (buy_deque st ! i) (sell_deque st ! j) = Price (Some p)"
    "st' = settle tk st i (buy_deque st ! i) j (sell_deque st ! j) p"
  using scan_buys_matched [of tk st 0 "buy_deque st" st'] assms unfolding match_pass_def by auto

lemma scan_sells_raised: "scan_sells tk st i b j rest = Inl (e, st') \<Longrightarrow> st' = st"
  by (induction rest arbitrary: j) (auto split: sum.splits option.splits dest: match_pair_cases(3))

lemma scan_buys_raised: "scan_buys tk st i rest = Inl (e, st') \<Longrightarrow> st' = st"
  by (induction rest arbitrary: i) (auto split: sum.splits option.splits dest: scan_sells_raised)

lemma match_pass_raised: "match_pass tk st = Inl (e, st') \<Longrightarrow> st' = st"
  unfolding match_pass_def by (rule scan_buys_raised)

lemma scan_sells_unmatched:
  "scan_sells tk st i b j rest = Inr None \<Longrightarrow> s \<in> set rest \<Longrightarrow>
   account_id b = account_id s \<or> execution_price (last_trade_price (book st)) tk b s = Skip"
  by (induction rest arbitrary: j) (auto split: sum.splits option.splits simp: match_pair_cases(2))

lemma scan_buys_unmatched:
  "scan_buys tk st i rest = Inr None \<Longrightarrow> b \<in> set rest \<Longrightarrow> s \<in> set (sell_deque st) \<Longrightarrow>
   account_id b = account_id s \<or> execution_price (last_trade_price (book st)) tk b s = Skip"
  by (induction rest arbitrary: i) (auto split: sum.splits option.splits dest: scan_sells_unmatched)

lemma match_pass_unmatched:
  "match_pass tk st = Inr None \<Longrightarrow> b \<in> set (buy_deque st) \<Longrightarrow> s \<in> set (sell_deque st) \<Longrightarrow>
   account_id b = account_id s \<or> execution_price (last_trade_price (book st)) tk b s = Skip"
  unfolding match_pass_def by (rule scan_buys_unmatched)

text \<open>Every pass that sets \<^verbatim>\<open>matched\<close> removes an order from a deque: the buy order
  that could not be paid, or the order of the pair whose quantity was the minimum.\<close>

lemma length_remove1_less: "x \<in> set xs \<Longrightarrow> length (remove1 x xs) < length xs"
  by (induction xs) auto

lemma length_drop_filled_le:
  "length (if c then remove1 x (ys[i := x]) else ys[i := x]) \<le> length ys"
  by (simp add: length_remove1)

lemma length_drop_filled_less:
  "c \<Longrightarrow> i < length ys \<Longrightarrow> length (if c then remove1 x (ys[i := x]) else ys[i := x]) < length ys"
  using length_remove1_less [of x "ys[i := x]"] by (simp add: set_update_memI)

lemma settle_shrinks:
  assumes "i < length (buy_deque st)" "buy_deque st ! i = b"
      and "j < length (sell_deque st)" "sell_deque st ! j = s"
  shows "length (buy_deque (settle tk st i b j s p)) + length (sell_deque (settle tk st i b j s p))
         < length (buy_deque st) + length (sell_deque st)"
proof -
  define e where "e = min (quantity b) (quantity s)"
  define b' where "b' = b\<lparr>quantity := quantity b - e\<rparr>"
  define s' where "s' = s\<lparr>quantity := quantity s - e\<rparr>"
  have b_in: "b \<in> set (buy_deque st)" using assms(1,2) nth_mem by blast
  show ?thesis
  proof (cases "balance (accounts st (account_id b)) \<ge> e * p")
    case False
    then show ?thesis using length_remove1_less [OF b_in] by (simp add: settle_def Let_def e_def)
  next
    case True
    let ?B = "length (if quantity b' = 0 then remove1 b' ((buy_deque st)[i := b']) else (buy_deque st)[i := b'])"
    let ?S = "length (if quantity s' = 0 then remove1 s' ((sell_deque st)[j := s']) else (sell_deque st)[j := s'])"
    have bl: "?B \<le> length (buy_deque st)" by (rule length_drop_filled_le)
    have sl: "?S \<le> length (sell_deque st)" by (rule length_drop_filled_le)
    have "quantity b' = 0 \<or> quantity s' = 0" by (auto simp: b'_def s'_def e_def min_def)
    then have "?B < length (buy_deque st) \<or> ?S < length (sell_deque st)"
      using length_drop_filled_less [OF _ assms(1), of "quantity b' = 0" b']
            length_drop_filled_less [OF _ assms(3), of "quantity s' = 0" s'] by blast
    with bl sl have "?B + ?S < length (buy_deque st) + length (sell_deque st)" by linarith
    moreover have "settle tk st i b j s p =
       \<lparr>buy_deque = (if quantity b' = 0 then remove1 b' ((buy_deque st)[i := b']) else (buy_deque st)[i := b']),
        sell_deque = (if quantity s' = 0 then remove1 s' ((sell_deque st)[j := s']) else (sell_deque st)[j := s']),
        book = book (settle tk st i b j s p), accounts = accounts (settle tk st i b j s p)\<rparr>"
      using True by (simp add: settle_def Let_def e_def b'_def s'_def)
    ultimately show ?thesis by (metis matching.select_convs(1,2))
  qed
qed

lemma match_pass_shrinks:
  assumes "match_pass tk st = Inr (Some st')"
  shows "length (buy_deque st') + length (sell_deque st') < length (buy_deque st) + length (sell_deque st)"
proof -
  from assms obtain i j p where "i < length (buy_deque st)" "j < length (sell_deque st)"
    "st' = settle tk st i (buy_deque st ! i) j (sell_deque st ! j) p"
    by (rule match_pass_matched)
  then show ?thesis using settle_shrinks [of i st "buy_deque st ! i" j "sell_deque st ! j" tk p] by simp
qed

text \<open>\<^verbatim>\<open>while buy_orders and sell_orders\<close>: a pass that matched is followed by
  another pass, a pass that did not match ends the loop.\<close>

function match_loop :: "string \<Rightarrow> matching \<Rightarrow> matching raising" where
  "match_loop tk st =
     (if buy_deque st \<noteq> [] \<and> sell_deque st \<noteq> [] then
        (case match_pass tk st of
           Inl e \<Rightarrow> Inl e
         | Inr None \<Rightarrow> Inr st
         | Inr (Some st') \<Rightarrow> match_loop tk st')
      else Inr st)"
  by pat_completeness auto
termination
  by (relation "measure (\<lambda>(tk, st). length (buy_deque st) + length (sell_deque st))")
     (auto dest: match_pass_shrinks)

declare match_loop.simps [simp del]

lemma match_loop_stop:
  "buy_deque st = [] \<or> sell_deque st = [] \<Longrightarrow> match_loop tk st = Inr st"
  by (auto simp: match_loop.simps [of tk st])

lemma match_loop_unmatched:
  "buy_deque st \<noteq> [] \<Longrightarrow> sell_deque st \<noteq> [] \<Longrightarrow> match_pass tk st = Inr None \<Longrightarrow>
   match_loop tk st = Inr st"
  by (simp add: match_loop.simps [of tk st])

lemma match_loop_raised:
  "buy_deque st \<noteq> [] \<Longrightarrow> sell_deque st \<noteq> [] \<Longrightarrow> match_pass tk st = Inl x \<Longrightarrow>
   match_loop tk st = Inl x"
  by (simp add: match_loop.simps [of tk st])

lemma match_loop_matched:
  "buy_deque st \<noteq> [] \<Longrightarrow> sell_deque st \<noteq> [] \<Longrightarrow> match_pass tk st = Inr (Some st') \<Longrightarrow>
   match_loop tk st = match_loop tk st'"
  by (simp add: match_loop.simps [of tk st])

text \<open>\<^verbatim>\<open>match_orders\<close>: the deques of the ticker are sorted into local deques, the loop
  runs, and the local deques are stored back under the ticker before the snapshot is
  written. An exception leaves the method before the deques are stored back.\<close>

definition start_matching :: "order_book \<Rightarrow> account_manager \<Rightarrow> string \<Rightarrow> matching" where
  "start_matching self account_manager tk =
     \<lparr>buy_deque = py_sorted buy_key (orders_of (buy_orders self) tk),
      sell_deque = py_sorted sell_key (orders_of (sell_orders self) tk),
      book = self, accounts = account_manager\<rparr>"

definition finish_matching :: "string \<Rightarrow> matching \<Rightarrow> order_book \<times> account_manager" where
  "finish_matching tk st =
     (save_unmatched_orders
        ((book st)\<lparr>buy_orders := dict_set (buy_orders (book st)) tk (buy_deque st),
                   sell_orders := dict_set (sell_orders (book st)) tk (sell_deque st)\<rparr>),
      accounts st)"

definition match_orders ::
  "order_book \<Rightarrow> account_manager \<Rightarrow> string \<Rightarrow> (order_book \<times> account_manager) raising" where
  "match_orders self account_manager tk =
     (case match_loop tk (start_matching self account_manager tk) of
        Inl e \<Rightarrow> Inl e
      | Inr st \<Rightarrow> Inr (finish_matching tk st))"

section \<open>Observations\<close>

text \<open>The content of the executed-trades file as \<^verbatim>\<open>save_executed_trade\<close> reads it, and
  the property of a list of trades that no trade has the same account on both sides.\<close>

definition trade_log :: "order_book \<Rightarrow> trade list" where
  "trade_log self = (case executed_trades_file self of None \<Rightarrow> [] | Some ts \<Rightarrow> ts)"

definition no_self_trade :: "trade list \<Rightarrow> bool" where
  "no_self_trade ts = list_all (\<lambda>t. buy_account_id t \<noteq> sell_account_id t) ts"

text \<open>The loop state that the loop is left in, by return or by exception.\<close>

fun left_in :: "matching raising \<Rightarrow> matching" where
  "left_in (Inl (e, st)) = st"
| "left_in (Inr st) = st"

text \<open>The resting orders of a ticker after \<^verbatim>\<open>match_orders\<close> has returned.\<close>

definition resting_after ::
  "(order_book \<times> account_manager) raising \<Rightarrow> string \<Rightarrow> (datetime order list \<times> datetime order list) option" where
  "resting_after r tk =
     (case r of Inl _ \<Rightarrow> None
      | Inr (self', _) \<Rightarrow> Some (orders_of (buy_orders self') tk, orders_of (sell_orders self') tk))"

text \<open>An execution is a sequence of calls of \<^verbatim>\<open>add_order\<close> and \<^verbatim>\<open>match_orders\<close>
  on one book and one account manager; an exception ends it. \<open>trades_after\<close> is the
  executed-trades file at its end.\<close>

datatype call = Add_order "datetime order" | Match_orders string

fun run :: "order_book \<Rightarrow> account_manager \<Rightarrow> call list \<Rightarrow> (order_book \<times> account_manager) raising" where
  "run self account_manager [] = Inr (self, account_manager)"
| "run self account_manager (Add_order order # calls) =
     run (snd (add_order self account_manager order)) account_manager calls"
| "run self account_manager (Match_orders tk # calls) =
     (case match_orders self account_manager tk of
        Inl e \<Rightarrow> Inl e
      | Inr (self', account_manager') \<Rightarrow> run self' account_manager' calls)"

fun trades_after :: "(order_book \<times> account_manager) raising \<Rightarrow> trade list" where
  "trades_after (Inl (e, st)) = trade_log (book st)"
| "trades_after (Inr (self, account_manager)) = trade_log self"

text \<open>The \<^verbatim>\<open>while\<close> loop with a bound on the number of passes: \<open>None\<close> when the
  bound is used up before the loop has ended.\<close>

fun match_loop_bounded :: "nat \<Rightarrow> string \<Rightarrow> matching \<Rightarrow> matching raising option" where
  "match_loop_bounded 0 tk st = None"
| "match_loop_bounded (Suc n) tk st =
     (if buy_deque st \<noteq> [] \<and> sell_deque st \<noteq> [] then
        (case match_pass tk st of
           Inl e \<Rightarrow> Some (Inl e)
         | Inr None \<Rightarrow> Some (Inr st)
         | Inr (Some st') \<Rightarrow> match_loop_bounded n tk st')
      else Some (Inr st))"

definition resting_quantity :: "matching \<Rightarrow> int" where
  "resting_quantity st =
     sum_list (map quantity (buy_deque st)) + sum_list (map quantity (sell_deque st))"

text \<open>The prices of the limit orders of a collection, and the dicts all of whose
  timestamps are datetimes.\<close>

definition limit_prices :: "datetime order list \<Rightarrow> int list" where
  "limit_prices orders =
     concat (map (\<lambda>x. case price x of None \<Rightarrow> [] | Some p \<Rightarrow> [p])
               (filter (\<lambda>x. order_type x = ''limit'') orders))"

definition valid_timestamps :: "(string, datetime order list) dict \<Rightarrow> bool" where
  "valid_timestamps d = list_all (\<lambda>(tk, orders). list_all (\<lambda>x. valid_datetime (timestamp x)) orders) d"

section \<open>Concrete books for the closed theorems\<close>

definition example_ts :: datetime where
  "example_ts = (2024, 1, 2, 3, 4, 5, 0)"

definition example_order :: "string \<Rightarrow> string \<Rightarrow> string \<Rightarrow> int \<Rightarrow> int option \<Rightarrow> datetime order" where
  "example_order a act ty q p =
     \<lparr>account_id = a, ticker = ''XYZ'', action = act, order_type = ty, quantity = q,
      price = p, timestamp = example_ts\<rparr>"

definition empty_book :: order_book where
  "empty_book =
     \<lparr>buy_orders = [], sell_orders = [], last_trade_price = Map.empty,
      unmatched_orders_file = None, executed_trades_file = None\<rparr>"

text \<open>Every account holds a balance of 1000 and 10 shares of XYZ.\<close>

definition example_accounts :: account_manager where
  "example_accounts = (\<lambda>a. \<lparr>balance = 1000, positions = [''XYZ'' \<mapsto> 10]\<rparr>)"

text \<open>A book whose only ticker is XYZ, and loop states over the empty book.\<close>

definition book_of :: "datetime order list \<Rightarrow> datetime order list \<Rightarrow> order_book" where
  "book_of bs ss = empty_book\<lparr>buy_orders := [(''XYZ'', bs)], sell_orders := [(''XYZ'', ss)]\<rparr>"

definition example_matching :: "datetime order list \<Rightarrow> datetime order list \<Rightarrow> matching" where
  "example_matching bs ss = \<lparr>buy_deque = bs, sell_deque = ss, book = empty_book, accounts = example_accounts\<rparr>"

definition mm_b :: "datetime order" where "mm_b = example_order ''A'' ''buy'' ''market'' 5 None"
definition mm_s :: "datetime order" where "mm_s = example_order ''B'' ''sell'' ''market'' 5 None"
definition ll_b :: "datetime order" where "ll_b = example_order ''A'' ''buy'' ''limit'' 5 (Some 101)"
definition ll_s :: "datetime order" where "ll_s = example_order ''B'' ''sell'' ''limit'' 10 (Some 100)"



definition self_b :: "datetime order" where "self_b = example_order ''A'' ''buy'' ''limit'' 10 (Some 50)"
definition self_s :: "datetime order" where "self_s = example_order ''A'' ''sell'' ''limit'' 10 (Some 50)"

definition apart_b :: "datetime order" where "apart_b = example_order ''A'' ''buy'' ''limit'' 5 (Some 99)"
definition apart_s :: "datetime order" where "apart_s = example_order ''B'' ''sell'' ''limit'' 10 (Some 100)"

definition three_sells :: "datetime order list" where
  "three_sells = [example_order ''B'' ''sell'' ''limit'' 10 (Some 100),
                  example_order ''C'' ''sell'' ''market'' 5 None,
                  example_order ''D'' ''sell'' ''limit'' 3 (Some 98)]"

definition example_ts2 :: datetime where
  "example_ts2 = (2024, 2, 29, 23, 59, 58, 250)"

definition round_trip_book :: order_book where
  "round_trip_book = empty_book
     \<lparr>buy_orders := [(''XYZ'', [ll_b, mm_b]), (''ABC'', [])],
      sell_orders := [(''XYZ'', [ll_s\<lparr>timestamp := example_ts2\<rparr>])]\<rparr>"

definition hold_order :: "datetime order" where
  "hold_order = example_order ''A'' ''hold'' ''market'' 5 None"

text \<open>A book with orders of its own in memory whose unmatched-orders file holds the
  snapshot written from \<open>round_trip_book\<close>.\<close>

definition reloading_book :: order_book where
  "reloading_book =
     (book_of [apart_b] [apart_s])
       \<lparr>unmatched_orders_file := unmatched_orders_file (save_unmatched_orders round_trip_book)\<rparr>"

section \<open>Dicts and the snapshot\<close>

lemma dict_get_dict_set: "dict_get (dict_set d k v) k' = (if k' = k then Some v else dict_get d k')"
  by (induction d) (auto simp: dict_get_def)

lemma orders_of_dict_set: "orders_of (dict_set d k v) k' = (if k' = k then v else orders_of d k')"
  by (simp add: orders_of_def dict_get_dict_set)

lemma save_unmatched_orders_fields [simp]:
  "buy_orders (save_unmatched_orders self) = buy_orders self"
  "sell_orders (save_unmatched_orders self) = sell_orders self"
  "last_trade_price (save_unmatched_orders self) = last_trade_price self"
  "executed_trades_file (save_unmatched_orders self) = executed_trades_file self"
  by (simp_all add: save_unmatched_orders_def)

lemma py_sorted_single [simp]: "py_sorted k [x] = [x]"
  by (simp add: py_sorted_def)

lemma finish_matching_orders:
  "orders_of (buy_orders (fst (finish_matching tk st))) tk = buy_deque st"
  "orders_of (sell_orders (fst (finish_matching tk st))) tk = sell_deque st"
  "last_trade_price (fst (finish_matching tk st)) = last_trade_price (book st)"
  "trade_log (fst (finish_matching tk st)) = trade_log (book st)"
  by (simp_all add: finish_matching_def orders_of_dict_set trade_log_def)

lemma match_orders_returns:
  assumes "match_orders self account_manager tk = Inr r"
  obtains st where "match_loop tk (start_matching self account_manager tk) = Inr st"
    and "r = finish_matching tk st"
  using assms by (auto simp: match_orders_def split: sum.splits)

section \<open>Properties of the matching loop\<close>

lemma settle_trade_log:
  "account_id b \<noteq> account_id s \<Longrightarrow>
   \<exists>new. trade_log (book (settle tk st i b j s p)) = trade_log (book st) @ new \<and> no_self_trade new"
  by (auto simp: settle_def Let_def trade_log_def save_executed_trade_def no_self_trade_def)

lemma settle_book_orders:
  "buy_orders (book (settle tk st i b j s p)) = buy_orders (book st)"
  "sell_orders (book (settle tk st i b j s p)) = sell_orders (book st)"
  by (simp_all add: settle_def Let_def save_executed_trade_def)

lemma match_pass_trade_log:
  assumes "match_pass tk st = Inr (Some st')"
  shows "\<exists>new. trade_log (book st') = trade_log (book st) @ new \<and> no_self_trade new"
  using assms by (elim match_pass_matched) (simp add: settle_trade_log)

lemma no_self_trade_append: "no_self_trade (xs @ ys) = (no_self_trade xs \<and> no_self_trade ys)"
  by (simp add: no_self_trade_def)

lemma match_loop_trade_log:
  "\<exists>new. trade_log (book (left_in (match_loop tk st))) = trade_log (book st) @ new \<and> no_self_trade new"
proof (induction tk st rule: match_loop.induct)
  case (1 tk st)
  show ?case
  proof (cases "buy_deque st \<noteq> [] \<and> sell_deque st \<noteq> []")
    case False
    then show ?thesis by (simp add: match_loop_stop no_self_trade_def)
  next
    case True
    show ?thesis
    proof (cases "match_pass tk st")
      case (Inl x)
      then obtain e st' where x: "x = (e, st')" by (cases x)
      with Inl have "st' = st" by (auto dest: match_pass_raised)
      with Inl x True show ?thesis by (simp add: match_loop.simps [of tk st] no_self_trade_def)
    next
      case (Inr r)
      show ?thesis
      proof (cases r)
        case None
        with Inr True show ?thesis by (simp add: match_loop.simps [of tk st] no_self_trade_def)
      next
        case (Some st')
        with Inr have pass: "match_pass tk st = Inr (Some st')" by simp
        from match_pass_trade_log [OF pass] obtain new1 where
          n1: "trade_log (book st') = trade_log (book st) @ new1" "no_self_trade new1" by blast
        from "1.IH" [OF True pass refl] obtain new2 where
          n2: "trade_log (book (left_in (match_loop tk st'))) = trade_log (book st') @ new2" "no_self_trade new2"
          by blast
        have "match_loop tk st = match_loop tk st'"
          using True pass by (simp add: match_loop.simps [of tk st])
        with n1 n2 have "trade_log (book (left_in (match_loop tk st))) = trade_log (book st) @ (new1 @ new2)
            \<and> no_self_trade (new1 @ new2)" by (simp add: no_self_trade_append)
        then show ?thesis by blast
      qed
    qed
  qed
qed

lemma match_loop_returns:
  "match_loop tk st = Inr st' \<Longrightarrow>
   buy_deque st' = [] \<or> sell_deque st' = [] \<or> match_pass tk st' = Inr None"
proof (induction tk st rule: match_loop.induct)
  case (1 tk st)
  show ?case
  proof (cases "buy_deque st \<noteq> [] \<and> sell_deque st \<noteq> []")
    case False
    with "1.prems" show ?thesis by (auto simp: match_loop_stop)
  next
    case True
    show ?thesis
    proof (cases "match_pass tk st")
      case (Inl x)
      with True "1.prems" show ?thesis by (simp add: match_loop.simps [of tk st])
    next
      case (Inr r)
      show ?thesis
      proof (cases r)
        case None
        with Inr True "1.prems" show ?thesis by (simp add: match_loop.simps [of tk st])
      next
        case (Some st'')
        with Inr True "1.prems" have "match_loop tk st'' = Inr st'"
          by (simp add: match_loop.simps [of tk st])
        from "1.IH" [OF True _ _ this] Inr Some show ?thesis by simp
      qed
    qed
  qed
qed

lemma match_loop_book_orders:
  "buy_orders (book (left_in (match_loop tk st))) = buy_orders (book st) \<and>
   sell_orders (book (left_in (match_loop tk st))) = sell_orders (book st)"
proof (induction tk st rule: match_loop.induct)
  case (1 tk st)
  show ?case
  proof (cases "buy_deque st \<noteq> [] \<and> sell_deque st \<noteq> []")
    case False
    then show ?thesis by (simp add: match_loop_stop)
  next
    case True
    show ?thesis
    proof (cases "match_pass tk st")
      case (Inl x)
      then obtain e st' where x: "x = (e, st')" by (cases x)
      with Inl have "st' = st" by (auto dest: match_pass_raised)
      with Inl x True show ?thesis by (simp add: match_loop.simps [of tk st])
    next
      case (Inr r)
      show ?thesis
      proof (cases r)
        case None
        with Inr True show ?thesis by (simp add: match_loop.simps [of tk st])
      next
        case (Some st')
        with Inr have pass: "match_pass tk st = Inr (Some st')" by simp
        have "buy_orders (book st') = buy_orders (book st) \<and> sell_orders (book st') = sell_orders (book st)"
          using pass by (elim match_pass_matched) (simp add: settle_book_orders)
        moreover have "match_loop tk st = match_loop tk st'"
          using True pass by (simp add: match_loop.simps [of tk st])
        ultimately show ?thesis using "1.IH" [OF True pass refl] by simp
      qed
    qed
  qed
qed

section \<open>Properties of add_order\<close>

text \<open>For an order whose action is buy or sell, \<^verbatim>\<open>add_order\<close> rejects it, returning
  failure and leaving the whole book unchanged, exactly when the quantity is not positive,
  or the order type is neither market nor limit, or the order is a limit order whose price
  is absent or not positive, or the order is a sell and the account's position in the
  ticker is less than the quantity; otherwise it returns success, appends the order to the
  tail of the collection of its side and ticker and changes no other collection.\<close>

lemma add_order_buy_or_sell:
  assumes "action order = ''buy'' \<or> action order = ''sell''"
  shows "(if quantity order \<le> 0 \<or> order_type order \<notin> {''market'', ''limit''} \<or>
       (order_type order = ''limit'' \<and> (price order = None \<or> (\<exists>p. price order = Some p \<and> p \<le> 0))) \<or>
       (action order = ''sell'' \<and>
        position_of (positions (account_manager (account_id order))) (ticker order) < quantity order)
    then add_order self account_manager order = (False, self)
    else fst (add_order self account_manager order) = True \<and>
         last_trade_price (snd (add_order self account_manager order)) = last_trade_price self \<and>
         (action order = ''buy'' \<longrightarrow>
            orders_of (buy_orders (snd (add_order self account_manager order))) (ticker order)
              = orders_of (buy_orders self) (ticker order) @ [order] \<and>
            (\<forall>tk. tk \<noteq> ticker order \<longrightarrow>
               dict_get (buy_orders (snd (add_order self account_manager order))) tk = dict_get (buy_orders self) tk) \<and>
            sell_orders (snd (add_order self account_manager order)) = sell_orders self) \<and>
         (action order = ''sell'' \<longrightarrow>
            orders_of (sell_orders (snd (add_order self account_manager order))) (ticker order)
              = orders_of (sell_orders self) (ticker order) @ [order] \<and>
            (\<forall>tk. tk \<noteq> ticker order \<longrightarrow>
               dict_get (sell_orders (snd (add_order self account_manager order))) tk = dict_get (sell_orders self) tk) \<and>
            buy_orders (snd (add_order self account_manager order)) = buy_orders self))"
  using assms
  by (auto simp: add_order_def Let_def orders_of_dict_set dict_get_dict_set split: option.splits)

text \<open>C6. An order that \<^verbatim>\<open>add_order\<close> does not reject is to be appended to the
  collection of its side and ticker. The code validates the order type but not the action:
  the market order of quantity 5 with the action \<^verbatim>\<open>hold\<close> passes every validation,
  \<^verbatim>\<open>add_order\<close> returns success, and the order is in neither collection; both sides of
  the book are still empty.\<close>

theorem add_order_accepts_unstored_order:
  "0 < quantity hold_order \<and> order_type hold_order = ''market'' \<and>
   fst (add_order empty_book example_accounts hold_order) = True \<and>
   hold_order \<notin> set (orders_of (buy_orders (snd (add_order empty_book example_accounts hold_order))) ''XYZ'') \<and>
   hold_order \<notin> set (orders_of (sell_orders (snd (add_order empty_book example_accounts hold_order))) ''XYZ'') \<and>
   buy_orders (snd (add_order empty_book example_accounts hold_order)) = [] \<and>
   sell_orders (snd (add_order empty_book example_accounts hold_order)) = []"
  by (simp add: add_order_def hold_order_def example_order_def empty_book_def orders_of_def dict_get_def)

text \<open>C10. An order with a positive quantity, of the type market or limit (with a
  positive price when limit), whose action is neither buy nor sell, is accepted by
  \<^verbatim>\<open>add_order\<close>, which returns success, and neither side of the book changes.\<close>

theorem add_order_unknown_action:
  assumes "0 < quantity order"
      and "order_type order = ''market'' \<or> order_type order = ''limit'' \<and> (\<exists>p. price order = Some p \<and> 0 < p)"
      and "action order \<noteq> ''buy''" and "action order \<noteq> ''sell''"
  shows "fst (add_order self account_manager order) = True \<and>
         buy_orders (snd (add_order self account_manager order)) = buy_orders self \<and>
         sell_orders (snd (add_order self account_manager order)) = sell_orders self"
  using assms by (auto simp: add_order_def Let_def)

theorem add_order_unknown_action_witness:
  "fst (add_order empty_book example_accounts (example_order ''A'' ''hold'' ''limit'' 5 (Some 7))) = True \<and>
   buy_orders (snd (add_order empty_book example_accounts (example_order ''A'' ''hold'' ''limit'' 5 (Some 7)))) = [] \<and>
   sell_orders (snd (add_order empty_book example_accounts (example_order ''A'' ''hold'' ''limit'' 5 (Some 7)))) = []"
  using add_order_unknown_action [of "example_order ''A'' ''hold'' ''limit'' 5 (Some 7)" empty_book example_accounts]
  by (simp add: example_order_def empty_book_def)

section \<open>Properties of match_orders\<close>

text \<open>C1. For a pair of different accounts the body of the inner loop takes its price
  from the order types: market/market settles at the last trade price of the ticker and
  passes the pair over when none is recorded; market buy/limit sell settles at the sell's
  limit price; limit buy/market sell settles at the buy's limit price; limit/limit settles
  at the sell's limit price when the buy's limit price is at least the sell's, and passes
  the pair over otherwise.\<close>

theorem execution_price_by_order_types:
  assumes "account_id buy_order \<noteq> account_id sell_order"
  shows "(order_type buy_order = ''market'' \<and> order_type sell_order = ''market'' \<longrightarrow>
            match_pair tk st i buy_order j sell_order =
              (case last_trade_price (book st) tk of
                 None \<Rightarrow> Inr None
               | Some p \<Rightarrow> Inr (Some (settle tk st i buy_order j sell_order p)))) \<and>
         (order_type buy_order = ''market'' \<and> order_type sell_order = ''limit'' \<longrightarrow>
            (\<forall>ps. price sell_order = Some ps \<longrightarrow>
               match_pair tk st i buy_order j sell_order =
                 Inr (Some (settle tk st i buy_order j sell_order ps)))) \<and>
         (order_type buy_order = ''limit'' \<and> order_type sell_order = ''market'' \<longrightarrow>
            (\<forall>pb. price buy_order = Some pb \<longrightarrow>
               match_pair tk st i buy_order j sell_order =
                 Inr (Some (settle tk st i buy_order j sell_order pb)))) \<and>
         (order_type buy_order = ''limit'' \<and> order_type sell_order = ''limit'' \<longrightarrow>
            (\<forall>pb ps. price buy_order = Some pb \<and> price sell_order = Some ps \<longrightarrow>
               match_pair tk st i buy_order j sell_order =
                 (if pb \<ge> ps then Inr (Some (settle tk st i buy_order j sell_order ps))
                  else Inr None)))"
  using assms by (auto simp: match_pair_def execution_price_def split: option.splits)

theorem execution_price_by_order_types_witness:
  "match_pair ''XYZ'' (example_matching [mm_b] [mm_s]) 0 mm_b 0 mm_s = Inr None \<and>
   match_pair ''XYZ'' (example_matching [mm_b] [ll_s]) 0 mm_b 0 ll_s =
     Inr (Some (settle ''XYZ'' (example_matching [mm_b] [ll_s]) 0 mm_b 0 ll_s 100)) \<and>
   match_pair ''XYZ'' (example_matching [ll_b] [mm_s]) 0 ll_b 0 mm_s =
     Inr (Some (settle ''XYZ'' (example_matching [ll_b] [mm_s]) 0 ll_b 0 mm_s 101)) \<and>
   match_pair ''XYZ'' (example_matching [ll_b] [ll_s]) 0 ll_b 0 ll_s =
     Inr (Some (settle ''XYZ'' (example_matching [ll_b] [ll_s]) 0 ll_b 0 ll_s 100)) \<and>
   executed_trades_file (book (settle ''XYZ'' (example_matching [ll_b] [ll_s]) 0 ll_b 0 ll_s 100)) =
     Some [\<lparr>trade_ticker = ''XYZ'', trade_price = 100, trade_quantity = 5,
            buy_account_id = ''A'', sell_account_id = ''B''\<rparr>]"
  using execution_price_by_order_types [of mm_b mm_s "''XYZ''" "example_matching [mm_b] [mm_s]" 0 0]
        execution_price_by_order_types [of mm_b ll_s "''XYZ''" "example_matching [mm_b] [ll_s]" 0 0]
        execution_price_by_order_types [of ll_b mm_s "''XYZ''" "example_matching [ll_b] [mm_s]" 0 0]
        execution_price_by_order_types [of ll_b ll_s "''XYZ''" "example_matching [ll_b] [ll_s]" 0 0]
  by (simp add: mm_b_def mm_s_def ll_b_def ll_s_def example_order_def example_matching_def
        empty_book_def example_accounts_def settle_def Let_def save_executed_trade_def position_of_def)

text \<open>C2, as amended. After \<^verbatim>\<open>match_orders\<close> has returned for a ticker, no resting
  buy limit order and resting sell limit order of that ticker that belong to different
  accounts cross: both carry a price and the buy's price is below the sell's. This holds
  whatever the balances and positions are.\<close>

theorem no_crossing_after_match_orders:
  assumes "match_orders self account_manager tk = Inr (self', account_manager')"
      and "b \<in> set (orders_of (buy_orders self') tk)"
      and "s \<in> set (orders_of (sell_orders self') tk)"
      and "order_type b = ''limit''" and "order_type s = ''limit''"
      and "account_id b \<noteq> account_id s"
  shows "\<exists>pb ps. price b = Some pb \<and> price s = Some ps \<and> pb < ps"
proof -
  from assms(1) obtain st where loop: "match_loop tk (start_matching self account_manager tk) = Inr st"
    and fin: "(self', account_manager') = finish_matching tk st"
    by (rule match_orders_returns)
  from fin have self': "self' = fst (finish_matching tk st)" by (metis fst_conv)
  from assms(2,3) have b: "b \<in> set (buy_deque st)" and s: "s \<in> set (sell_deque st)"
    by (simp_all add: self' finish_matching_orders)
  then have "buy_deque st \<noteq> []" "sell_deque st \<noteq> []" by auto
  with match_loop_returns [OF loop] have "match_pass tk st = Inr None" by simp
  from match_pass_unmatched [OF this b s] assms(6)
  have "execution_price (last_trade_price (book st)) tk b s = Skip" by simp
  then show ?thesis using assms(4,5)
    by (auto simp: execution_price_def split: option.splits if_splits)
qed

text \<open>A buy and a sell limit order of the same account at the price 50 both rest
  after matching, although the balance and the position of the account would cover the
  trade.\<close>

theorem no_crossing_counterexample:
  "resting_after (match_orders (book_of [self_b] [self_s]) example_accounts ''XYZ'') ''XYZ''
     = Some ([self_b], [self_s]) \<and>
   order_type self_b = ''limit'' \<and> order_type self_s = ''limit'' \<and>
   0 < quantity self_b \<and> 0 < quantity self_s \<and>
   price self_b = Some 50 \<and> price self_s = Some 50 \<and>
   balance (example_accounts (account_id self_b)) \<ge> 10 * 50 \<and>
   position_of (positions (example_accounts (account_id self_s))) ''XYZ'' \<ge> 10"
proof -
  let ?st = "start_matching (book_of [self_b] [self_s]) example_accounts ''XYZ''"
  have st: "buy_deque ?st = [self_b]" "sell_deque ?st = [self_s]"
    by (simp_all add: start_matching_def book_of_def orders_of_def dict_get_def)
  have same: "account_id self_b = account_id self_s"
    by (simp add: self_b_def self_s_def example_order_def)
  have "match_pass ''XYZ'' ?st = Inr None"
    by (simp add: match_pass_def st match_pair_def same)
  then have "match_loop ''XYZ'' ?st = Inr ?st"
    by (simp add: match_loop_unmatched st)
  then have "resting_after (match_orders (book_of [self_b] [self_s]) example_accounts ''XYZ'') ''XYZ''
     = Some ([self_b], [self_s])"
    by (simp add: match_orders_def resting_after_def finish_matching_def orders_of_dict_set st)
  then show ?thesis
    by (simp add: self_b_def self_s_def example_order_def example_accounts_def position_of_def)
qed

theorem no_crossing_after_match_orders_witness:
  "resting_after (match_orders (book_of [apart_b] [apart_s]) example_accounts ''XYZ'') ''XYZ''
     = Some ([apart_b], [apart_s]) \<and>
   (\<exists>pb ps. price apart_b = Some pb \<and> price apart_s = Some ps \<and> pb < ps)"
proof -
  let ?st = "start_matching (book_of [apart_b] [apart_s]) example_accounts ''XYZ''"
  have st: "buy_deque ?st = [apart_b]" "sell_deque ?st = [apart_s]"
    by (simp_all add: start_matching_def book_of_def orders_of_def dict_get_def)
  have skip: "execution_price (last_trade_price (book ?st)) ''XYZ'' apart_b apart_s = Skip"
    by (simp add: execution_price_def apart_b_def apart_s_def example_order_def)
  have "match_pass ''XYZ'' ?st = Inr None"
    by (simp add: match_pass_def st match_pair_def skip)
  then have loop: "match_loop ''XYZ'' ?st = Inr ?st"
    by (simp add: match_loop_unmatched st)
  then have ret: "match_orders (book_of [apart_b] [apart_s]) example_accounts ''XYZ''
      = Inr (fst (finish_matching ''XYZ'' ?st), snd (finish_matching ''XYZ'' ?st))"
    by (simp add: match_orders_def)
  have rest: "resting_after (match_orders (book_of [apart_b] [apart_s]) example_accounts ''XYZ'') ''XYZ''
     = Some ([apart_b], [apart_s])"
    using loop by (simp add: match_orders_def resting_after_def finish_matching_def orders_of_dict_set st)
  have "\<exists>pb ps. price apart_b = Some pb \<and> price apart_s = Some ps \<and> pb < ps"
    by (rule no_crossing_after_match_orders [OF ret])
       (simp_all add: finish_matching_orders st, simp_all add: apart_b_def apart_s_def example_order_def)
  with rest show ?thesis by simp
qed



text \<open>C5. A trade executes the minimum of the two quantities; both orders are
  decremented by it, so that their sum decreases by twice the executed quantity; an order
  leaves its deque exactly when its quantity has become zero, and stays with the
  decremented quantity otherwise.\<close>

theorem trade_quantities:
  assumes "i < length (buy_deque st)" and "buy_deque st ! i = buy_order"
      and "j < length (sell_deque st)" and "sell_deque st ! j = sell_order"
      and "balance (accounts st (account_id buy_order))
             \<ge> min (quantity buy_order) (quantity sell_order) * p"
  shows "(let e = min (quantity buy_order) (quantity sell_order);
              buy_order' = buy_order\<lparr>quantity := quantity buy_order - e\<rparr>;
              sell_order' = sell_order\<lparr>quantity := quantity sell_order - e\<rparr>;
              st' = settle tk st i buy_order j sell_order p
          in executed_trades_file (book st') =
               Some ((case executed_trades_file (book st) of None \<Rightarrow> [] | Some ts \<Rightarrow> ts) @
                 [\<lparr>trade_ticker = tk, trade_price = p, trade_quantity = e,
                   buy_account_id = account_id buy_order,
                   sell_account_id = account_id sell_order\<rparr>]) \<and>
             quantity buy_order' + quantity sell_order'
               = quantity buy_order + quantity sell_order - 2 * e \<and>
             mset (buy_deque st') =
               (if quantity buy_order' = 0 then mset (buy_deque st) - {#buy_order#}
                else add_mset buy_order' (mset (buy_deque st) - {#buy_order#})) \<and>
             mset (sell_deque st') =
               (if quantity sell_order' = 0 then mset (sell_deque st) - {#sell_order#}
                else add_mset sell_order' (mset (sell_deque st) - {#sell_order#})))"
  using assms by (simp add: settle_def Let_def save_executed_trade_def mset_update)

theorem trade_quantities_witness:
  "executed_trades_file (book (settle ''XYZ'' (example_matching [ll_b] [ll_s]) 0 ll_b 0 ll_s 100)) =
     Some [\<lparr>trade_ticker = ''XYZ'', trade_price = 100, trade_quantity = 5,
            buy_account_id = ''A'', sell_account_id = ''B''\<rparr>] \<and>
   mset (buy_deque (settle ''XYZ'' (example_matching [ll_b] [ll_s]) 0 ll_b 0 ll_s 100)) = {#} \<and>
   mset (sell_deque (settle ''XYZ'' (example_matching [ll_b] [ll_s]) 0 ll_b 0 ll_s 100))
     = {#ll_s\<lparr>quantity := 5\<rparr>#}"
  using trade_quantities [of 0 "example_matching [ll_b] [ll_s]" ll_b 0 ll_s 100 "''XYZ''"]
  by (simp add: Let_def example_matching_def ll_b_def ll_s_def example_order_def
        example_accounts_def empty_book_def)

section \<open>Executions\<close>

lemma add_order_trade_log: "trade_log (snd (add_order self account_manager order)) = trade_log self"
  by (simp add: add_order_def Let_def trade_log_def)

lemma start_matching_book [simp]: "book (start_matching self account_manager tk) = self"
  by (simp add: start_matching_def)

lemma match_orders_trade_log:
  "\<exists>new. trades_after (match_orders self account_manager tk) = trade_log self @ new \<and> no_self_trade new"
proof -
  let ?st = "start_matching self account_manager tk"
  from match_loop_trade_log [of tk ?st] obtain new where
    new: "trade_log (book (left_in (match_loop tk ?st))) = trade_log self @ new" "no_self_trade new"
    by auto
  have "trades_after (match_orders self account_manager tk) = trade_log (book (left_in (match_loop tk ?st)))"
    by (cases "match_loop tk ?st")
       (auto simp: match_orders_def finish_matching_def trade_log_def)
  with new show ?thesis by auto
qed

lemma run_trade_log:
  "\<exists>new. trades_after (run self account_manager calls) = trade_log self @ new \<and> no_self_trade new"
proof (induction calls arbitrary: self account_manager)
  case Nil
  show ?case by (simp add: no_self_trade_def)
next
  case (Cons c calls)
  show ?case
  proof (cases c)
    case (Add_order order)
    from Cons.IH [of "snd (add_order self account_manager order)" account_manager]
    show ?thesis by (simp add: Add_order add_order_trade_log)
  next
    case (Match_orders tk)
    from match_orders_trade_log [of self account_manager tk] obtain new1 where
      n1: "trades_after (match_orders self account_manager tk) = trade_log self @ new1" "no_self_trade new1"
      by auto
    show ?thesis
    proof (cases "match_orders self account_manager tk")
      case (Inl x)
      then have "run self account_manager (c # calls) = match_orders self account_manager tk"
        by (simp add: Match_orders)
      with n1 show ?thesis by auto
    next
      case (Inr r)
      obtain self' am' where r: "r = (self', am')" by (cases r)
      from Cons.IH [of self' am'] obtain new2 where
        n2: "trades_after (run self' am' calls) = trade_log self' @ new2" "no_self_trade new2" by auto
      from n1 Inr r have "trade_log self' = trade_log self @ new1" by simp
      with n2 n1(2) have "trades_after (run self' am' calls) = trade_log self @ (new1 @ new2)
          \<and> no_self_trade (new1 @ new2)" by (simp add: no_self_trade_append)
      moreover have "run self account_manager (c # calls) = run self' am' calls"
        by (simp add: Match_orders Inr r)
      ultimately show ?thesis by metis
    qed
  qed
qed

text \<open>C3. Whatever the calls of \<^verbatim>\<open>add_order\<close> and \<^verbatim>\<open>match_orders\<close> and whatever
  the book they start from, the trades that the execution appends to the executed-trades
  file, also those appended before an exception, never have the same account as buyer and
  seller; the body of the inner loop passes over every pair of orders of one account.\<close>

theorem no_self_trade_ever:
  "(\<exists>new. trades_after (run self account_manager calls) = trade_log self @ new \<and>
          no_self_trade new) \<and>
   (account_id buy_order = account_id sell_order \<longrightarrow>
      match_pair tk st i buy_order j sell_order = Inr None)"
  using run_trade_log [of self account_manager calls] by (simp add: match_pair_def)

theorem no_self_trade_ever_witness:
  "trades_after (run (book_of [] []) example_accounts
       [Add_order self_s, Add_order ll_b, Add_order ll_s, Add_order self_b, Match_orders ''XYZ''])
     = [\<lparr>trade_ticker = ''XYZ'', trade_price = 100, trade_quantity = 5,
         buy_account_id = ''A'', sell_account_id = ''B''\<rparr>] \<and>
   no_self_trade (trades_after (run (book_of [] []) example_accounts
       [Add_order self_s, Add_order ll_b, Add_order ll_s, Add_order self_b, Match_orders ''XYZ''])) \<and>
   match_pair ''XYZ'' (example_matching [self_b] [self_s]) 0 self_b 0 self_s = Inr None"
proof -
  have "trades_after (run (book_of [] []) example_accounts
       [Add_order self_s, Add_order ll_b, Add_order ll_s, Add_order self_b, Match_orders ''XYZ''])
     = [\<lparr>trade_ticker = ''XYZ'', trade_price = 100, trade_quantity = 5,
         buy_account_id = ''A'', sell_account_id = ''B''\<rparr>]"
    by code_simp
  moreover have "trade_log (book_of [] []) = []"
    by (simp add: trade_log_def book_of_def empty_book_def)
  moreover have "account_id self_b = account_id self_s"
    by (simp add: self_b_def self_s_def example_order_def)
  ultimately show ?thesis
    using no_self_trade_ever [of "book_of [] []" example_accounts
        "[Add_order self_s, Add_order ll_b, Add_order ll_s, Add_order self_b, Match_orders ''XYZ'']"
        self_b self_s "''XYZ''" "example_matching [self_b] [self_s]" 0 0]
    by (simp del: run.simps)
qed

section \<open>Termination of the matching loop\<close>

lemma match_loop_bounded_enough:
  "length (buy_deque st) + length (sell_deque st) < n \<Longrightarrow>
   match_loop_bounded n tk st = Some (match_loop tk st)"
proof (induction n arbitrary: st)
  case 0
  then show ?case by simp
next
  case (Suc n)
  show ?case
  proof (cases "buy_deque st \<noteq> [] \<and> sell_deque st \<noteq> []")
    case False
    then show ?thesis by (auto simp: match_loop_stop)
  next
    case True
    show ?thesis
    proof (cases "match_pass tk st")
      case (Inl x)
      with True show ?thesis by (simp add: match_loop_raised)
    next
      case (Inr r)
      show ?thesis
      proof (cases r)
        case None
        with Inr True show ?thesis by (simp add: match_loop_unmatched)
      next
        case (Some st')
        with Inr have pass: "match_pass tk st = Inr (Some st')" by simp
        from match_pass_shrinks [OF pass] Suc.prems
        have "length (buy_deque st') + length (sell_deque st') < n" by simp
        from Suc.IH [OF this] True pass show ?thesis by (simp add: match_loop_matched)
      qed
    qed
  qed
qed

lemma sum_list_quantity_update:
  "i < length xs \<Longrightarrow>
   sum_list (map quantity (xs[i := x])) = sum_list (map quantity xs) - quantity (xs ! i) + quantity x"
  by (induction xs arbitrary: i) (auto split: nat.splits)

lemma sum_list_quantity_drop_filled:
  "i < length xs \<Longrightarrow>
   sum_list (map quantity (if quantity x = 0 then remove1 x (xs[i := x]) else xs[i := x]))
     = sum_list (map quantity xs) - quantity (xs ! i) + quantity x"
proof -
  assume i: "i < length xs"
  then have "x \<in> set (xs[i := x])" by (simp add: set_update_memI)
  from sum_list_map_remove1 [OF this, of quantity]
  have "quantity x = 0 \<Longrightarrow> sum_list (map quantity (remove1 x (xs[i := x]))) = sum_list (map quantity (xs[i := x]))"
    by simp
  then show ?thesis using sum_list_quantity_update [OF i, of x] by simp
qed

lemma settle_resting_quantity:
  assumes "i < length (buy_deque st)" "j < length (sell_deque st)"
      and "balance (accounts st (account_id (buy_deque st ! i)))
             \<ge> min (quantity (buy_deque st ! i)) (quantity (sell_deque st ! j)) * p"
  shows "resting_quantity (settle tk st i (buy_deque st ! i) j (sell_deque st ! j) p)
           = resting_quantity st - 2 * min (quantity (buy_deque st ! i)) (quantity (sell_deque st ! j))"
proof -
  define b where "b = buy_deque st ! i"
  define s where "s = sell_deque st ! j"
  define e where "e = min (quantity b) (quantity s)"
  define b' where "b' = b\<lparr>quantity := quantity b - e\<rparr>"
  define s' where "s' = s\<lparr>quantity := quantity s - e\<rparr>"
  have bd: "buy_deque (settle tk st i b j s p) =
      (if quantity b' = 0 then remove1 b' ((buy_deque st)[i := b']) else (buy_deque st)[i := b'])"
    and sd: "sell_deque (settle tk st i b j s p) =
      (if quantity s' = 0 then remove1 s' ((sell_deque st)[j := s']) else (sell_deque st)[j := s'])"
    using assms(3) by (simp_all add: settle_def Let_def b_def s_def e_def b'_def s'_def)
  have "sum_list (map quantity (buy_deque (settle tk st i b j s p)))
          = sum_list (map quantity (buy_deque st)) - e"
    unfolding bd using sum_list_quantity_drop_filled [OF assms(1), of b'] by (simp add: b'_def b_def)
  moreover have "sum_list (map quantity (sell_deque (settle tk st i b j s p)))
          = sum_list (map quantity (sell_deque st)) - e"
    unfolding sd using sum_list_quantity_drop_filled [OF assms(2), of s'] by (simp add: s'_def s_def)
  ultimately show ?thesis by (simp add: resting_quantity_def b_def s_def e_def)
qed

lemma settle_unpaid_trade_log:
  "\<not> balance (accounts st (account_id b)) \<ge> min (quantity b) (quantity s) * p \<Longrightarrow>
   trade_log (book (settle tk st i b j s p)) = trade_log (book st)"
  by (simp add: settle_def Let_def)

lemma match_pass_resting_quantity:
  assumes "match_pass tk st = Inr (Some st')"
      and "\<forall>x \<in> set (buy_deque st) \<union> set (sell_deque st). 0 < quantity x"
      and "trade_log (book st') \<noteq> trade_log (book st)"
  shows "resting_quantity st' < resting_quantity st"
proof -
  from assms(1) obtain i j p where i: "i < length (buy_deque st)" and j: "j < length (sell_deque st)"
    and st': "st' = settle tk st i (buy_deque st ! i) j (sell_deque st ! j) p"
    by (rule match_pass_matched)
  from assms(3) st' have paid: "balance (accounts st (account_id (buy_deque st ! i)))
             \<ge> min (quantity (buy_deque st ! i)) (quantity (sell_deque st ! j)) * p"
    using settle_unpaid_trade_log by blast
  from i j assms(2) have "0 < quantity (buy_deque st ! i)" "0 < quantity (sell_deque st ! j)"
    by (simp_all add: nth_mem)
  then have "0 < min (quantity (buy_deque st ! i)) (quantity (sell_deque st ! j))" by simp
  with settle_resting_quantity [OF i j paid, of tk] st' show ?thesis by simp
qed

text \<open>C8. The matching loop ends: as many passes as there are resting orders on the
  two sides, and one more, are enough. Every pass that matched leaves fewer orders in the
  deques than it found, and when every resting order has a positive quantity a pass that
  traded leaves a strictly smaller total resting quantity; a pass that did not match ends
  the loop, as does an empty side.\<close>

theorem matching_loop_terminates:
  "match_loop_bounded (Suc (length (buy_deque st) + length (sell_deque st))) tk st
     = Some (match_loop tk st) \<and>
   (\<forall>st'. match_pass tk st = Inr (Some st') \<longrightarrow>
      length (buy_deque st') + length (sell_deque st')
        < length (buy_deque st) + length (sell_deque st) \<and>
      ((\<forall>x \<in> set (buy_deque st) \<union> set (sell_deque st). 0 < quantity x) \<and>
       trade_log (book st') \<noteq> trade_log (book st) \<longrightarrow>
         resting_quantity st' < resting_quantity st))"
  using match_loop_bounded_enough [of st "Suc (length (buy_deque st) + length (sell_deque st))" tk]
        match_pass_shrinks [of tk st] match_pass_resting_quantity [of tk st]
  by blast


theorem matching_loop_terminates_witness:
  "match_loop_bounded 3 ''XYZ'' (example_matching [ll_b] [ll_s])
     = Some (match_loop ''XYZ'' (example_matching [ll_b] [ll_s])) \<and>
   match_pass ''XYZ'' (example_matching [ll_b] [ll_s])
     = Inr (Some (settle ''XYZ'' (example_matching [ll_b] [ll_s]) 0 ll_b 0 ll_s 100)) \<and>
   length (buy_deque (settle ''XYZ'' (example_matching [ll_b] [ll_s]) 0 ll_b 0 ll_s 100)) +
   length (sell_deque (settle ''XYZ'' (example_matching [ll_b] [ll_s]) 0 ll_b 0 ll_s 100)) < 2 \<and>
   resting_quantity (example_matching [ll_b] [ll_s]) = 15 \<and>
   resting_quantity (settle ''XYZ'' (example_matching [ll_b] [ll_s]) 0 ll_b 0 ll_s 100) < 15"
proof -
  let ?st = "example_matching [ll_b] [ll_s]"
  let ?st' = "settle ''XYZ'' ?st 0 ll_b 0 ll_s 100"
  have deques: "buy_deque ?st = [ll_b]" "sell_deque ?st = [ll_s]"
    by (simp_all add: example_matching_def)
  have price: "execution_price (last_trade_price (book ?st)) ''XYZ'' ll_b ll_s = Price (Some 100)"
    by (simp add: execution_price_def ll_b_def ll_s_def example_order_def)
  have differ: "account_id ll_b \<noteq> account_id ll_s"
    by (simp add: ll_b_def ll_s_def example_order_def)
  have pass: "match_pass ''XYZ'' ?st = Inr (Some ?st')"
    by (simp add: match_pass_def deques match_pair_def price differ)
  have positive: "\<forall>x \<in> set (buy_deque ?st) \<union> set (sell_deque ?st). 0 < quantity x"
    by (simp add: deques, simp add: ll_b_def ll_s_def example_order_def)
  have traded: "trade_log (book ?st') \<noteq> trade_log (book ?st)"
    by (simp add: settle_def Let_def trade_log_def save_executed_trade_def example_matching_def
          empty_book_def example_accounts_def ll_b_def ll_s_def example_order_def)
  have total: "resting_quantity ?st = 15"
    by (simp add: resting_quantity_def deques, simp add: ll_b_def ll_s_def example_order_def)
  have fuel: "Suc (length (buy_deque ?st) + length (sell_deque ?st)) = 3"
    by (simp add: deques)
  note loop = matching_loop_terminates [of ?st "''XYZ''", unfolded fuel]
  from loop have bounded: "match_loop_bounded 3 ''XYZ'' ?st = Some (match_loop ''XYZ'' ?st)"
    by (rule conjunct1)
  from loop pass positive traded
  have "length (buy_deque ?st') + length (sell_deque ?st')
          < length (buy_deque ?st) + length (sell_deque ?st) \<and>
        resting_quantity ?st' < resting_quantity ?st"
    by blast
  then have "length (buy_deque ?st') + length (sell_deque ?st') < 2 \<and> resting_quantity ?st' < 15"
    by (simp add: deques total)
  with bounded pass total show ?thesis by blast
qed

section \<open>Properties of the price oracle\<close>

lemma py_min_from_Some: "py_min_from (Some c) (map Some ps) = Inr (Some (fold min ps c))"
  by (induction ps arbitrary: c) (auto simp: min_def)

lemma py_max_from_Some: "py_max_from (Some c) (map Some ps) = Inr (Some (fold max ps c))"
  by (induction ps arbitrary: c) (auto simp: max_def)

lemma priced_limit_orders:
  "\<forall>x \<in> set orders. order_type x = ''limit'' \<longrightarrow> price x \<noteq> None \<Longrightarrow>
   map price (filter (\<lambda>x. order_type x = ''limit'') orders) = map Some (limit_prices orders)"
  by (induction orders) (auto simp: limit_prices_def)

lemma py_min_from_prices:
  "py_min_from (Some p) (map Some ps) = Inr (Some (Min (set (p # ps))))"
  using Min.set_eq_fold [of p ps] by (simp add: py_min_from_Some)

lemma py_max_from_prices:
  "py_max_from (Some p) (map Some ps) = Inr (Some (Max (set (p # ps))))"
  using Max.set_eq_fold [of p ps] by (simp add: py_max_from_Some)

text \<open>C7. When the limit orders of the ticker carry prices, \<^verbatim>\<open>get_best_price\<close>
  returns, for a buy lookup, the minimum price of the resting sell limit orders when there
  is one, and for a sell lookup the maximum price of the resting buy limit orders when
  there is one; without such a limit order it returns the last trade price of the ticker,
  and the initial price of the ticker when no trade is recorded.\<close>

theorem get_best_price_lookup:
  assumes "\<forall>x \<in> set (orders_of (sell_orders self) tk). order_type x = ''limit'' \<longrightarrow> price x \<noteq> None"
      and "\<forall>x \<in> set (orders_of (buy_orders self) tk). order_type x = ''limit'' \<longrightarrow> price x \<noteq> None"
  shows "get_best_price get_initial_price self ''buy'' tk =
           Inr (Some (if limit_prices (orders_of (sell_orders self) tk) \<noteq> []
                      then Min (set (limit_prices (orders_of (sell_orders self) tk)))
                      else (case last_trade_price self tk of
                              Some p \<Rightarrow> p | None \<Rightarrow> get_initial_price tk))) \<and>
         get_best_price get_initial_price self ''sell'' tk =
           Inr (Some (if limit_prices (orders_of (buy_orders self) tk) \<noteq> []
                      then Max (set (limit_prices (orders_of (buy_orders self) tk)))
                      else (case last_trade_price self tk of
                              Some p \<Rightarrow> p | None \<Rightarrow> get_initial_price tk)))"
proof -
  have buy: "get_best_price get_initial_price self ''buy'' tk =
           Inr (Some (if limit_prices (orders_of (sell_orders self) tk) \<noteq> []
                      then Min (set (limit_prices (orders_of (sell_orders self) tk)))
                      else (case last_trade_price self tk of
                              Some p \<Rightarrow> p | None \<Rightarrow> get_initial_price tk)))"
  proof (cases "dict_get (sell_orders self) tk")
    case None
    then show ?thesis
      by (simp add: get_best_price_def orders_of_def limit_prices_def split: option.splits)
  next
    case (Some orders)
    then have o: "orders_of (sell_orders self) tk = orders" by (simp add: orders_of_def)
    from priced_limit_orders [OF assms(1) [unfolded o]]
    have m: "map price (filter (\<lambda>x. order_type x = ''limit'') orders) = map Some (limit_prices orders)" .
    show ?thesis
      by (cases "limit_prices orders")
         (simp_all add: get_best_price_def Some o m py_min_from_prices split: option.splits)
  qed
  have sell: "get_best_price get_initial_price self ''sell'' tk =
           Inr (Some (if limit_prices (orders_of (buy_orders self) tk) \<noteq> []
                      then Max (set (limit_prices (orders_of (buy_orders self) tk)))
                      else (case last_trade_price self tk of
                              Some p \<Rightarrow> p | None \<Rightarrow> get_initial_price tk)))"
  proof (cases "dict_get (buy_orders self) tk")
    case None
    then show ?thesis
      by (simp add: get_best_price_def orders_of_def limit_prices_def split: option.splits)
  next
    case (Some orders)
    then have o: "orders_of (buy_orders self) tk = orders" by (simp add: orders_of_def)
    from priced_limit_orders [OF assms(2) [unfolded o]]
    have m: "map price (filter (\<lambda>x. order_type x = ''limit'') orders) = map Some (limit_prices orders)" .
    show ?thesis
      by (cases "limit_prices orders")
         (simp_all add: get_best_price_def Some o m py_max_from_prices split: option.splits)
  qed
  from buy sell show ?thesis by simp
qed

theorem get_best_price_lookup_witness:
  "get_best_price (\<lambda>tk. 42) (book_of [ll_b, apart_b] three_sells) ''buy'' ''XYZ'' = Inr (Some 98) \<and>
   get_best_price (\<lambda>tk. 42) (book_of [ll_b, apart_b] three_sells) ''sell'' ''XYZ'' = Inr (Some 101) \<and>
   get_best_price (\<lambda>tk. 42) (book_of [] []) ''buy'' ''XYZ'' = Inr (Some 42) \<and>
   get_best_price (\<lambda>tk. 42) ((book_of [] [])\<lparr>last_trade_price := [''XYZ'' \<mapsto> 7]\<rparr>) ''sell'' ''XYZ'' = Inr (Some 7)"
  using get_best_price_lookup [of "book_of [ll_b, apart_b] three_sells" "''XYZ''" "\<lambda>tk. 42"]
        get_best_price_lookup [of "book_of [] []" "''XYZ''" "\<lambda>tk. 42"]
        get_best_price_lookup [of "(book_of [] [])\<lparr>last_trade_price := [''XYZ'' \<mapsto> 7]\<rparr>" "''XYZ''" "\<lambda>tk. 42"]
  by (simp add: book_of_def empty_book_def orders_of_def dict_get_def three_sells_def ll_b_def
        apart_b_def example_order_def limit_prices_def)

section \<open>Round trip of the snapshot\<close>

lemma digit_value_digit_char: "d < 10 \<Longrightarrow> digit_value (digit_char d) = Some d"
  by (simp add: digit_value_def digit_char_def Let_def)

lemma length_zero_padded [simp]: "length (zero_padded w n) = w"
  by (induction w arbitrary: n) auto

lemma decimal_from_append:
  "decimal_from acc (xs @ ys) =
     (case decimal_from acc xs of None \<Rightarrow> None | Some a \<Rightarrow> decimal_from a ys)"
  by (induction xs arbitrary: acc) (auto split: option.splits)

lemma decimal_from_zero_padded:
  "n < 10 ^ w \<Longrightarrow> decimal_from acc (zero_padded w n) = Some (acc * 10 ^ w + n)"
proof (induction w arbitrary: n)
  case 0
  then show ?case by simp
next
  case (Suc w)
  from Suc.prems have "n div 10 < 10 ^ w" by (simp add: less_mult_imp_div_less mult.commute)
  from Suc.IH [OF this] show ?case
    by (simp add: decimal_from_append digit_value_digit_char algebra_simps)
qed

lemma decimal_zero_padded: "0 < w \<Longrightarrow> n < 10 ^ w \<Longrightarrow> decimal (zero_padded w n) = Some n"
proof -
  assume w: "0 < w" and n: "n < 10 ^ w"
  have "zero_padded w n \<noteq> []" using w length_zero_padded [of w n] by (metis length_0_conv less_not_refl)
  then show ?thesis using decimal_from_zero_padded [OF n, of 0] by (simp add: decimal_def)
qed

lemma iso_layout:
  fixes g :: string
  assumes "length a = 4" "length b = 2" "length c = 2" "length d = 2" "length e = 2" "length f = 2"
      and "str = a @ ''-'' @ b @ ''-'' @ c @ ''T'' @ d @ '':'' @ e @ '':'' @ f @ g"
  shows "take 4 str = a" "take 2 (drop 5 str) = b" "take 2 (drop 8 str) = c"
    "take 2 (drop 11 str) = d" "take 2 (drop 14 str) = e" "take 2 (drop 17 str) = f"
    "str ! 4 = CHR ''-''" "str ! 7 = CHR ''-''" "str ! 10 = CHR ''T''" "str ! 13 = CHR '':''"
    "str ! 16 = CHR '':''" "length str = 19 + length g" "drop 19 str = g"
  using assms by (simp_all add: nth_append)


lemma fromisoformat_isoformat:
  assumes "valid_datetime ts"
  shows "fromisoformat (isoformat ts) = Inr ts"
proof -
  obtain y mo d h mi s us where ts: "ts = (y, mo, d, h, mi, s, us)" by (cases ts)
  from assms have v: "valid_datetime (y, mo, d, h, mi, s, us)" by (simp add: ts)
  then have bounds: "y < 10 ^ 4" "mo < 10 ^ 2" "h < 10 ^ 2" "mi < 10 ^ 2" "s < 10 ^ 2" "us < 10 ^ 6"
    by simp_all
  from v have "d \<le> days_in_month y mo" by simp
  also have "\<dots> \<le> 31" by (simp add: days_in_month_def)
  finally have dbound: "d < 10 ^ 2" by simp
  define g where "g = (if us = 0 then [] else ''.'' @ zero_padded 6 us)"
  define str where "str = isoformat ts"
  have str: "str = zero_padded 4 y @ ''-'' @ zero_padded 2 mo @ ''-'' @ zero_padded 2 d @ ''T'' @
      zero_padded 2 h @ '':'' @ zero_padded 2 mi @ '':'' @ zero_padded 2 s @ g"
    by (simp add: str_def ts g_def)
  note lay = iso_layout [OF _ _ _ _ _ _ str, simplified]
  have fields: "decimal (take 4 str) = Some y" "decimal (take 2 (drop 5 str)) = Some mo"
    "decimal (take 2 (drop 8 str)) = Some d" "decimal (take 2 (drop 11 str)) = Some h"
    "decimal (take 2 (drop 14 str)) = Some mi" "decimal (take 2 (drop 17 str)) = Some s"
    using bounds dbound by (simp_all only: lay decimal_zero_padded zero_less_numeral)
  have seps: "str ! 4 = CHR ''-''" "str ! 7 = CHR ''-''" "str ! 10 = CHR ''T''"
    "str ! 13 = CHR '':''" "str ! 16 = CHR '':''"
    by (simp_all only: lay)
  have len: "length str = 19 + length g" and tail: "drop 19 str = g"
    by (simp_all only: lay)
  show ?thesis
  proof (cases "us = 0")
    case True
    then have "length str = 19" using len by (simp add: g_def)
    then have "fromisoformat str = Inr ts"
      using fields seps v True by (simp add: fromisoformat_def ts)
    then show ?thesis unfolding str_def .
  next
    case False
    then have g: "g = CHR ''.'' # zero_padded 6 us" by (simp add: g_def)
    have l26: "length str = 26" using len by (simp add: g)
    have "hd (drop 19 str) = str ! 19" using l26 by (simp add: hd_drop_conv_nth)
    then have dot: "str ! 19 = CHR ''.''" using tail g by simp
    have "drop 1 (drop 19 str) = drop 20 str" by simp
    then have "drop 20 str = zero_padded 6 us" using tail g by simp
    then have us: "decimal (drop 20 str) = Some us"
      using bounds by (simp add: decimal_zero_padded)
    have "fromisoformat str = Inr ts"
      using fields seps v l26 dot us by (simp add: fromisoformat_def ts)
    then show ?thesis unfolding str_def .
  qed
qed


lemma load_orders_serialized:
  "\<forall>x \<in> set orders. valid_datetime (timestamp x) \<Longrightarrow>
   load_orders (map serialize_order orders) = Inr orders"
  by (induction orders) (simp_all add: serialize_order_def fromisoformat_isoformat)

lemma dict_set_new: "k \<notin> fst ` set d \<Longrightarrow> dict_set d k v = d @ [(k, v)]"
  by (induction d) auto

lemma load_side_serialized:
  "distinct (map fst (acc @ d)) \<Longrightarrow>
   \<forall>(tk, orders) \<in> set d. \<forall>x \<in> set orders. valid_datetime (timestamp x) \<Longrightarrow>
   load_side (map (\<lambda>(tk, orders). (tk, map serialize_order orders)) d) acc = Inr (acc @ d)"
proof (induction d arbitrary: acc)
  case Nil
  then show ?case by simp
next
  case (Cons item d)
  obtain tk orders where item: "item = (tk, orders)" by (cases item)
  from Cons.prems(2) have valid: "\<forall>x \<in> set orders. valid_datetime (timestamp x)"
    by (simp add: item)
  from Cons.prems(1) have new: "tk \<notin> fst ` set acc" by (auto simp: item)
  from Cons.prems(1) have "distinct (map fst ((acc @ [(tk, orders)]) @ d))" by (simp add: item)
  moreover from Cons.prems(2)
  have "\<forall>(tk, orders) \<in> set d. \<forall>x \<in> set orders. valid_datetime (timestamp x)" by simp
  ultimately have "load_side (map (\<lambda>(tk, orders). (tk, map serialize_order orders)) d) (acc @ [(tk, orders)])
      = Inr ((acc @ [(tk, orders)]) @ d)" by (rule Cons.IH)
  then show ?case
    by (simp add: item load_orders_serialized [OF valid] dict_set_new [OF new])
qed

lemma load_side_serialized_from_empty:
  assumes "distinct (map fst d)" and "valid_timestamps d"
  shows "load_side (map (\<lambda>(tk, orders). (tk, map serialize_order orders)) d) [] = Inr d"
  using load_side_serialized [of "[]" d] assms
  by (auto simp: valid_timestamps_def list_all_iff)

text \<open>C9. Let a book have dicts with distinct keys and orders that carry datetimes, and
  let any book, whatever it holds in memory, find in its unmatched-orders file the
  snapshot that \<^verbatim>\<open>save_unmatched_orders\<close> wrote from the first. Then
  \<^verbatim>\<open>load_unmatched_orders\<close> replaces both sides of the loading book by the sides of the
  saved book: the same tickers, and for each ticker the same orders in the same order,
  every field and the timestamp included.\<close>

theorem unmatched_orders_round_trip:
  assumes "distinct (map fst (buy_orders self))" and "distinct (map fst (sell_orders self))"
      and "valid_timestamps (buy_orders self)" and "valid_timestamps (sell_orders self)"
      and "unmatched_orders_file other = unmatched_orders_file (save_unmatched_orders self)"
  shows "load_unmatched_orders other =
           Inr (other\<lparr>buy_orders := buy_orders self, sell_orders := sell_orders self\<rparr>)"
  using assms(5)
  by (simp add: load_unmatched_orders_def save_unmatched_orders_def
        load_side_serialized_from_empty [OF assms(1,3)]
        load_side_serialized_from_empty [OF assms(2,4)])

theorem unmatched_orders_round_trip_witness:
  "buy_orders reloading_book = [(''XYZ'', [apart_b])] \<and>
   sell_orders reloading_book = [(''XYZ'', [apart_s])] \<and>
   load_unmatched_orders reloading_book =
     Inr (reloading_book
            \<lparr>buy_orders := [(''XYZ'', [ll_b, mm_b]), (''ABC'', [])],
             sell_orders := [(''XYZ'', [ll_s\<lparr>timestamp := example_ts2\<rparr>])]\<rparr>) \<and>
   load_unmatched_orders (empty_book\<lparr>unmatched_orders_file :=
       unmatched_orders_file (save_unmatched_orders round_trip_book)\<rparr>) =
     Inr (save_unmatched_orders round_trip_book) \<and>
   isoformat example_ts2 = ''2024-02-29T23:59:58.000250'' \<and>
   isoformat example_ts = ''2024-01-02T03:04:05''"
proof -
  have "valid_datetime example_ts" "valid_datetime example_ts2"
    by (simp_all add: example_ts_def example_ts2_def days_in_month_def is_leap_def)
  then have valid: "valid_timestamps (buy_orders round_trip_book)"
    "valid_timestamps (sell_orders round_trip_book)"
    by (simp_all add: valid_timestamps_def round_trip_book_def ll_b_def mm_b_def ll_s_def
          example_order_def)
  have keys: "distinct (map fst (buy_orders round_trip_book))"
    "distinct (map fst (sell_orders round_trip_book))"
    by (simp_all add: round_trip_book_def)
  have stored: "unmatched_orders_file reloading_book
      = unmatched_orders_file (save_unmatched_orders round_trip_book)"
    by (simp add: reloading_book_def)
  have other: "load_unmatched_orders reloading_book =
      Inr (reloading_book\<lparr>buy_orders := buy_orders round_trip_book,
                           sell_orders := sell_orders round_trip_book\<rparr>)"
    by (rule unmatched_orders_round_trip [OF keys valid stored])
  have fresh: "load_unmatched_orders (empty_book\<lparr>unmatched_orders_file :=
       unmatched_orders_file (save_unmatched_orders round_trip_book)\<rparr>) =
     Inr ((empty_book\<lparr>unmatched_orders_file :=
       unmatched_orders_file (save_unmatched_orders round_trip_book)\<rparr>)
         \<lparr>buy_orders := buy_orders round_trip_book, sell_orders := sell_orders round_trip_book\<rparr>)"
    by (rule unmatched_orders_round_trip [OF keys valid]) simp
  have same: "(empty_book\<lparr>unmatched_orders_file :=
       unmatched_orders_file (save_unmatched_orders round_trip_book)\<rparr>)
         \<lparr>buy_orders := buy_orders round_trip_book, sell_orders := sell_orders round_trip_book\<rparr>
       = save_unmatched_orders round_trip_book"
    by (simp add: save_unmatched_orders_def round_trip_book_def empty_book_def)
  have iso: "isoformat example_ts2 = ''2024-02-29T23:59:58.000250''"
    "isoformat example_ts = ''2024-01-02T03:04:05''"
    by code_simp+
  have mem: "buy_orders reloading_book = [(''XYZ'', [apart_b])]"
    "sell_orders reloading_book = [(''XYZ'', [apart_s])]"
    by (simp_all add: reloading_book_def book_of_def)
  have rt: "buy_orders round_trip_book = [(''XYZ'', [ll_b, mm_b]), (''ABC'', [])]"
    "sell_orders round_trip_book = [(''XYZ'', [ll_s\<lparr>timestamp := example_ts2\<rparr>])]"
    by (simp_all add: round_trip_book_def)
  have other': "load_unmatched_orders reloading_book =
     Inr (reloading_book
            \<lparr>buy_orders := [(''XYZ'', [ll_b, mm_b]), (''ABC'', [])],
             sell_orders := [(''XYZ'', [ll_s\<lparr>timestamp := example_ts2\<rparr>])]\<rparr>)"
    using other unfolding rt .
  have fresh': "load_unmatched_orders (empty_book\<lparr>unmatched_orders_file :=
       unmatched_orders_file (save_unmatched_orders round_trip_book)\<rparr>) =
     Inr (save_unmatched_orders round_trip_book)"
    using fresh unfolding same .
  from mem other' fresh' iso show ?thesis by blast
qed

end
